theory Spec2Isabelle
  imports Complex_Main "HOL-Library.Word"
begin

unbundle bit_operations_syntax

section \<open>Shared data: errors, bases, reads\<close>

text \<open>
  The C++ code signals failure by throwing. Every throw of the two source files is a
  constructor application below; the string is the message of the exception. The spec
  names them: \<open>InvalidBase\<close> is \<open>std::invalid_argument\<close> with one of the two
  "invalid character" messages, \<open>InvalidPulseWidth\<close> and \<open>ReadEncodingError\<close> are
  \<open>std::runtime_error\<close> with the messages of \<open>EncodeRead\<close>.
\<close>

datatype error =
    invalid_argument string
  | runtime_error string
  | AlphaBetaMismatch
  | other_exception string

definition InvalidBase_template :: error where
  "InvalidBase_template = invalid_argument ''invalid character in template!''"

definition InvalidBase_read :: error where
  "InvalidBase_read = invalid_argument ''invalid character in read!''"

definition InvalidPulseWidth :: error where
  "InvalidPulseWidth = runtime_error ''invalid PulseWidth in read!''"

definition ReadEncodingError :: error where
  "ReadEncodingError = runtime_error ''read encoding error!''"

type_synonym uint8_t = "8 word"

text \<open>
  Modelled from the spec: \<open>detail::TranslationTable\<close>, the 256-entry table declared in a
  header that is not among the source files. The spec fixes its content: "Nucleotides encoded
  as 0..3 for {A,C,G,T}; any other character is invalid input". Every other character is
  given the code 4; the code only ever tests such an entry with \<open>> 3\<close>.
\<close>

definition TranslationTable :: "char \<Rightarrow> uint8_t" where
  "TranslationTable c =
     (if c = CHR ''A'' then 0
      else if c = CHR ''C'' then 1
      else if c = CHR ''G'' then 2
      else if c = CHR ''T'' then 3
      else 4)"

text \<open>
  \<open>MappedRead\<close> (declared in \<open>pacbio/consensus/Read.h\<close>, not among the source files): the
  fields the two files read. Pulse widths are unsigned integers; they are modelled as
  \<open>nat\<close>, so nothing below depends on their width. \<open>Length\<close> is the length of the base
  sequence.
\<close>

record MappedRead =
  Seq :: string
  PulseWidth :: "nat list"
  TemplateStart :: nat
  TemplateEnd :: nat

definition Length :: "MappedRead \<Rightarrow> nat" where
  "Length read = length (Seq read)"

section \<open>S\_P1C1v2\_Model.cpp: the read encoding\<close>

text \<open>
  \<open>S_P1C1v2_Recursor::EncodeRead\<close>. The \<open>for\<close> loop over \<open>i\<close> is the recursion on \<open>i\<close>;
  \<open>result\<close> is the vector built so far. The three throws are the three \<open>Inl\<close> branches, in
  the order of the source. \<open>pw\<close>, \<open>bp\<close> and \<open>em\<close> are \<open>uint8_t\<close>.
\<close>

function EncodeRead_loop :: "MappedRead \<Rightarrow> nat \<Rightarrow> uint8_t list \<Rightarrow> error + uint8_t list" where
  "EncodeRead_loop read i result =
     (if i < Length read then
        (if PulseWidth read ! i < 1 then Inl (runtime_error ''invalid PulseWidth in read!'')
         else
           (let pw = (of_nat (min 2 (PulseWidth read ! i - 1)) :: uint8_t);
                bp = TranslationTable (Seq read ! i)
            in if bp > 3 then Inl (invalid_argument ''invalid character in read!'')
               else
                 (let em = (push_bit 2 pw) OR bp
                  in if em > 11 then Inl (runtime_error ''read encoding error!'')
                     else EncodeRead_loop read (i + 1) (result @ [em]))))
      else Inr result)"
  by pat_completeness auto
termination
  by (relation "measure (\<lambda>(read, i, result). Length read - i)") auto

definition EncodeRead :: "MappedRead \<Rightarrow> error + uint8_t list" where
  "EncodeRead read = EncodeRead_loop read 0 []"

text \<open>The emission written for one read position that passes both checks.\<close>

definition emission_of :: "nat \<Rightarrow> char \<Rightarrow> uint8_t" where
  "emission_of p c = (push_bit 2 (of_nat (min 2 (p - 1)) :: uint8_t)) OR TranslationTable c"

definition valid_base :: "char \<Rightarrow> bool" where
  "valid_base c = (c = CHR ''A'' \<or> c = CHR ''C'' \<or> c = CHR ''G'' \<or> c = CHR ''T'')"

section \<open>S\_P1C1v2\_Model.cpp: transition probabilities\<close>

text \<open>
  A C++ \<open>double\<close> of the model file is read as the real number it stands for: the
  arithmetic of the constructor is exact real arithmetic here, \<open>std::exp\<close> is \<open>exp\<close> and
  \<open>std::log\<close> is \<open>ln\<close>. Rounding, overflow and NaN inputs are outside this reading.
\<close>

definition clip :: "real \<Rightarrow> real \<times> real \<Rightarrow> real" where
  "clip val rng = max (fst rng) (min val (snd rng))"

definition kCounterWeight :: real where
  "kCounterWeight = 20.0"

definition nOutcomes :: nat where
  "nOutcomes = 12"

definition nContexts :: nat where
  "nContexts = 16"

text \<open>
  \<open>SNR\<close> (declared in \<open>pacbio/consensus/Read.h\<close>, not among the source files): four
  values, one per base in the order A, C, G, T, read by index.
\<close>

datatype SNR = SNR real real real real

fun SNR_at :: "SNR \<Rightarrow> nat \<Rightarrow> real" where
  "SNR_at (SNR a c g t) i = (if i = 0 then a else if i = 1 then c else if i = 2 then g else t)"

definition snrRanges :: "(real \<times> real) list" where
  "snrRanges =
    [(4.001438, 9.300400),    \<comment> \<open>A\<close>
     (7.132999, 18.840239),   \<comment> \<open>C\<close>
     (4.017619, 9.839173),    \<comment> \<open>G\<close>
     (5.553696, 15.040482)]   \<comment> \<open>T\<close>"

definition transProbs :: "real list list list" where
  "transProbs =
  [\<comment> \<open>AA\<close>
    [[-10.2090406, 3.32117257, -0.520117212, 0.0249921413],
     [8.9793309, -5.3961519, 0.763613361, -0.0364406433],
     [7.97224482, -3.91644241, 0.485967707, -0.0210642023]],
    \<comment> \<open>AC\<close>
    [[-8.67385002, 1.79692678, -0.189152589, 0.00593875207],
     [-2.06471994, -0.248833169, 0.0239433129, -0.00081901914],
     [1.9844226, -0.834246008, 0.0238906298, 0.000299399008]],
    \<comment> \<open>AG\<close>
    [[-5.57888183, 0.8609919, -0.0601847875, -0.00209638118],
     [-0.0651352822, -0.37813552, -0.116036072, 0.0118044463],
     [10.3924646, -4.87649024, 0.583074371, -0.0230668231]],
    \<comment> \<open>AT\<close>
    [[-6.05918189, 1.12045586, -0.175515022, 0.0081588429],
     [-7.72954717, 1.74329164, -0.228908375, 0.00956968799],
     [0.739498015, -0.820985799, 0.034285628, 0.000308222633]],
    \<comment> \<open>CA\<close>
    [[6.71916863, -4.10669176, 0.61911044, -0.0312872449],
     [-10.7393976, 3.94632964, -0.664301449, 0.0363137581],
     [0.534509761, -0.614208207, -0.0230577035, 0.00504754227]],
    \<comment> \<open>CC\<close>
    [[-11.8487027, 2.18336459, -0.165744338, 0.00381936993],
     [-5.40511615, 0.582166777, -0.0352022429, 0.000649948647],
     [3.62707756, -1.60860162, 0.127123969, -0.00333194156]],
    \<comment> \<open>CG\<close>
    [[-5.33620523, 1.30599458, -0.227619416, 0.0129127127],
     [-8.16537748, 2.82193426, -0.53094601, 0.0319445398],
     [13.0580439, -6.8013044, 0.926568827, -0.0424609205]],
    \<comment> \<open>CT\<close>
    [[12.613656, -5.19052298, 0.561451908, -0.0206707933],
     [-9.73651127, 2.15521846, -0.225290947, 0.00767974576],
     [7.16886431, -2.96320727, 0.2726381, -0.00837654404]],
    \<comment> \<open>GA\<close>
    [[-3.6938331, 0.483533725, -0.0450473465, 0.000160356592],
     [6.68949621, -4.66399411, 0.677757326, -0.0318630437],
     [1.33410944, -0.988217134, -0.00422287463, 0.00562702615]],
    \<comment> \<open>GC\<close>
    [[2.66843035, -1.62797424, 0.147491681, -0.00444976878],
     [1.14199306, -0.843025302, 0.0604509646, -0.00133222978],
     [5.92824303, -2.33995279, 0.175825931, -0.00449046566]],
    \<comment> \<open>GG\<close>
    [[-9.53335176, 2.51765873, -0.318510141, 0.0117320354],
     [-0.524486685, -0.436816275, -0.0926096178, 0.0112705438],
     [8.88135834, -4.79762534, 0.664134538, -0.0311007622]],
    \<comment> \<open>GT\<close>
    [[3.35914891, -1.38173016, 0.0781044221, -0.000763136872],
     [10.8476498, -4.75169784, 0.525334182, -0.0193477301],
     [15.5403876, -5.8956994, 0.604296436, -0.0209965825]],
    \<comment> \<open>TA\<close>
    [[5.16029404, -3.68434804, 0.621640606, -0.0350676726],
     [11.8825308, -7.04640014, 1.07909276, -0.0537996376],
     [-9.20746548, 4.71271573, -0.951489582, 0.0565839306]],
    \<comment> \<open>TC\<close>
    [[2.73609906, -1.3992629, 0.120116348, -0.00349409007],
     [-4.54672948, 0.344140535, -0.0129698225, -0.000227430524],
     [0.840535522, -1.10879024, 0.0800657995, -0.00206209905]],
    \<comment> \<open>TG\<close>
    [[-6.45925912, 1.63128009, -0.226062028, 0.0099607621],
     [-8.86160161, 3.12245384, -0.583442174, 0.033990528],
     [3.46514973, -1.91203442, 0.12119972, 0.00103341906]],
    \<comment> \<open>TT\<close>
    [[2.70097834, -1.96301816, 0.246186023, -0.00988186677],
     [1.80568256, -1.56446979, 0.176114086, -0.00665610868],
     [1.91982573, -1.50191002, 0.153230363, -0.00550115233]]]"

text \<open>
  The constructor \<open>S_P1C1v2_Model::S_P1C1v2_Model\<close>. \<open>ctx_logit\<close> is the cubic
  polynomial of the inner loop; \<open>ctxTrans_fill\<close> is the body of the loop over \<open>ctx\<close> for
  the row \<open>ctxTrans_[ctx]\<close>: the first inner loop stores the three exponentials and
  accumulates \<open>sum\<close>, the second divides the four cells by \<open>sum\<close>. The cells 1..3 of the
  row are written before they are read, so their initial content (0 here) does not matter.
  The third inner loop fills \<open>cachedEmissionExpectations_\<close> from the emission tables and
  the enumeration \<open>MomentType\<close> (declared in a header that is not among the source
  files); it reads and writes nothing of \<open>ctxTrans_\<close> and is not part of this
  development.
\<close>

definition ctx_logit :: "nat \<Rightarrow> nat \<Rightarrow> real \<Rightarrow> real \<Rightarrow> real \<Rightarrow> real" where
  "ctx_logit ctx j snr1 snr2 snr3 =
     transProbs ! ctx ! j ! 0 + snr1 * transProbs ! ctx ! j ! 1 +
     snr2 * transProbs ! ctx ! j ! 2 + snr3 * transProbs ! ctx ! j ! 3"

definition ctxTrans_fill :: "SNR \<Rightarrow> nat \<Rightarrow> real list" where
  "ctxTrans_fill snr ctx =
     (let bp = ctx AND 3;
          snr1 = clip (SNR_at snr bp) (snrRanges ! bp);
          snr2 = snr1 * snr1;
          snr3 = snr2 * snr1;
          (row, sum) =
            fold (\<lambda>j (row, sum).
                    let xb = exp (ctx_logit ctx j snr1 snr2 snr3)
                    in (row[j + 1 := xb], sum + xb))
                 [0..<3] ([1.0, 0, 0, 0], 1.0)
      in fold (\<lambda>j row. row[j := row ! j / sum]) [0..<4] row)"

text \<open>
  The members \<open>snr_\<close> and \<open>ctxTrans_\<close> of the class are the fields \<open>model_snr\<close> and
  \<open>ctxTrans\<close> (an identifier cannot end in an underscore here).
\<close>

record S_P1C1v2_Model =
  model_snr :: SNR
  ctxTrans :: "real list list"

definition S_P1C1v2_Model_new :: "SNR \<Rightarrow> S_P1C1v2_Model" where
  "S_P1C1v2_Model_new snr =
     \<lparr>model_snr = snr, ctxTrans = map (ctxTrans_fill snr) [0..<nContexts]\<rparr>"

text \<open>\<open>S_P1C1v2_Recursor::UndoCounterWeights\<close>.\<close>

definition UndoCounterWeights :: "nat \<Rightarrow> real" where
  "UndoCounterWeights nEmissions = - ln kCounterWeight * real nEmissions"

section \<open>S\_P1C1v2\_Model.cpp: Populate\<close>

text \<open>
  \<open>TemplatePosition\<close> (declared in a header that is not among the source files): the six
  fields that \<open>Populate\<close> initialises, in the order of the braced initialiser.
\<close>

record TemplatePosition =
  Base :: char
  Idx :: uint8_t
  Match :: real
  Branch :: real
  Stick :: real
  Deletion :: real

text \<open>
  \<open>S_P1C1v2_Model::Populate\<close>. The loop starts at \<open>i = 1\<close>; \<open>prev\<close> is the code of
  \<open>tpl[i - 1]\<close>. \<open>row\<close> is computed in \<open>int\<close> in the source (\<open>auto\<close> after integral
  promotion), hence on \<open>nat\<close> here.
\<close>

function Populate_loop ::
  "S_P1C1v2_Model \<Rightarrow> string \<Rightarrow> nat \<Rightarrow> uint8_t \<Rightarrow> TemplatePosition list
     \<Rightarrow> error + TemplatePosition list" where
  "Populate_loop m tpl i prev result =
     (if i < length tpl then
        (let curr = TranslationTable (tpl ! i)
         in if curr > 3 then Inl (invalid_argument ''invalid character in template!'')
            else
              (let row = (push_bit 2 (unat prev)) OR (unat curr);
                   params = ctxTrans m ! row
               in Populate_loop m tpl (i + 1) curr
                    (result @
                     [\<lparr>Base = tpl ! (i - 1), Idx = prev,
                       Match = params ! 0, Branch = params ! 1,
                       Stick = params ! 2, Deletion = params ! 3\<rparr>])))
      else Inr (result @
                [\<lparr>Base = last tpl, Idx = prev,
                  Match = 1.0, Branch = 0.0, Stick = 0.0, Deletion = 0.0\<rparr>]))"
  by pat_completeness auto
termination
  by (relation "measure (\<lambda>(m, tpl, i, prev, result). length tpl - i)") auto

definition Populate :: "S_P1C1v2_Model \<Rightarrow> string \<Rightarrow> error + TemplatePosition list" where
  "Populate m tpl =
     (if tpl = [] then Inr []
      else
        (let prev = TranslationTable (tpl ! 0)
         in if prev > 3 then Inl (invalid_argument ''invalid character in template!'')
            else Populate_loop m tpl 1 prev []))"

section \<open>EvaluatorImpl.cpp: the values of a double\<close>

text \<open>
  \<open>EvaluatorImpl\<close> tests a score with \<open>std::isfinite\<close> and divides by a square root
  without a guard, so the special values of a C++ \<open>double\<close> matter there. A \<open>double\<close> is
  a finite value, one of the two infinities, or NaN. Finite values are read as reals:
  the operations below are exact on them (no rounding, no overflow to an infinity, a
  single zero); on the special values they follow IEEE 754, which is what \<open>+\<close>, \<open>-\<close>,
  \<open>/\<close>, \<open>std::log\<close> and \<open>std::sqrt\<close> compute. With a single zero the sign of an infinity
  that a division by zero produces is that of the numerator; no statement below
  depends on that sign.
\<close>

datatype double = Finite real | PosInf | NegInf | NaN

fun isfinite :: "double \<Rightarrow> bool" where
  "isfinite (Finite x) = True"
| "isfinite PosInf = False"
| "isfinite NegInf = False"
| "isfinite NaN = False"


fun dadd :: "double \<Rightarrow> double \<Rightarrow> double" where
  "dadd (Finite x) (Finite y) = Finite (x + y)"
| "dadd NaN y = NaN"
| "dadd x NaN = NaN"
| "dadd PosInf NegInf = NaN"
| "dadd NegInf PosInf = NaN"
| "dadd PosInf y = PosInf"
| "dadd x PosInf = PosInf"
| "dadd NegInf y = NegInf"
| "dadd x NegInf = NegInf"



fun dlog :: "double \<Rightarrow> double" where
  "dlog (Finite x) = (if 0 < x then Finite (ln x) else if x = 0 then NegInf else NaN)"
| "dlog PosInf = PosInf"
| "dlog NegInf = NaN"
| "dlog NaN = NaN"


section \<open>EvaluatorImpl.cpp: collaborators\<close>

text \<open>
  Modelled from the spec: \<open>ScaledMatrix\<close>, whose class is not among the source files. The
  spec: "a rectangular table M of size (rows x cols) of non-negative floats, together with
  a \<open>logScale[j]\<close> vector (one per column), and a \<open>usedRowRange[j] = [lo, hi)\<close> per column",
  "\<open>GetLogProdScales(a,b)\<close> is the sum of \<open>logScale[j]\<close> for j in [a,b) and
  \<open>GetLogProdScales() = GetLogProdScales(0, cols)\<close>". \<open>cells m ! j ! i\<close> is the entry
  of row \<open>i\<close> in column \<open>j\<close>; a fresh matrix is all zero.
\<close>

record ScaledMatrix =
  Rows :: nat
  Columns :: nat
  cells :: "double list list"
  logScale :: "double list"
  usedRowRange :: "(nat \<times> nat) list"

text \<open>
  Modelled from the spec: the constructor \<open>ScaledMatrix(rows, cols)\<close>; the matrix is all
  zero, with no scale and no used range, as after the spec's \<open>Reset(rows, cols)\<close>.
\<close>

definition ScaledMatrix_new :: "nat \<Rightarrow> nat \<Rightarrow> ScaledMatrix" where
  "ScaledMatrix_new rows cols =
     \<lparr>Rows = rows, Columns = cols,
      cells = replicate cols (replicate rows (Finite 0)),
      logScale = replicate cols (Finite 0),
      usedRowRange = replicate cols (0, 0)\<rparr>"

text \<open>Modelled from the spec: element access \<open>M(i, j)\<close>, row \<open>i\<close> of column \<open>j\<close>.\<close>

definition Get :: "ScaledMatrix \<Rightarrow> nat \<Rightarrow> nat \<Rightarrow> double" where
  "Get m i j = cells m ! j ! i"

text \<open>
  Modelled from the spec: \<open>GetLogProdScales(a, b)\<close>, the sum of \<open>logScale[j]\<close> for the
  columns \<open>j\<close> in \<open>[a, b)\<close>.
\<close>

definition GetLogProdScales :: "ScaledMatrix \<Rightarrow> nat \<Rightarrow> nat \<Rightarrow> double" where
  "GetLogProdScales m a b = foldl dadd (Finite 0) (map (\<lambda>j. logScale m ! j) [a..<b])"

text \<open>Modelled from the spec: \<open>GetLogProdScales() = GetLogProdScales(0, cols)\<close>.\<close>

definition GetLogProdScales_all :: "ScaledMatrix \<Rightarrow> double" where
  "GetLogProdScales_all m = GetLogProdScales m 0 (Columns m)"

text \<open>
  Modelled from the spec: \<open>Mutation\<close>, whose class is not among the source files. The spec:
  "\<open>{type, start, end, base?}\<close>; \<open>lengthDiff = +1 | 0 | -1\<close> depending on type".
\<close>

datatype MutationType = DELETION | INSERTION | SUBSTITUTION

record Mutation =
  Type :: MutationType
  Start :: nat
  End :: nat
  NewBase :: "char option"

text \<open>
  Modelled from the spec: \<open>Mutation::LengthDiff\<close>. The template grows by one position
  under an insertion, shrinks by one under a deletion and keeps its length under a
  substitution.
\<close>

definition LengthDiff :: "Mutation \<Rightarrow> int" where
  "LengthDiff mut = (case Type mut of DELETION \<Rightarrow> - 1 | INSERTION \<Rightarrow> 1 | SUBSTITUTION \<Rightarrow> 0)"

text \<open>
  The recursor of an evaluator: its template \<open>tpl_\<close>, its read \<open>read_\<close>, the encoded read
  and the banding threshold. The type of the template is a parameter: the \<open>Template\<close> class
  is not among the source files.
\<close>

record 'tpl Recursor =
  rec_tpl :: 'tpl
  rec_read :: MappedRead
  rec_emissions :: "uint8_t list"
  rec_scoreDiff :: real

text \<open>
  Modelled from the spec: the constructor of the recursor (\<open>Recursor.h\<close> is not among the
  source files). The spec: "The Recursor holds: the Template, the encoded read (a vector
  of 0..11 outcomes), and a \<open>scoreDiff\<close> banding threshold", and construction of an
  evaluator can fail with \<open>InvalidBase\<close> or \<open>InvalidPulseWidth\<close>, the errors of
  \<open>EncodeRead\<close>.
\<close>

definition Recursor_new :: "'tpl \<Rightarrow> MappedRead \<Rightarrow> real \<Rightarrow> error + 'tpl Recursor" where
  "Recursor_new tpl mr scoreDiff =
     (case EncodeRead mr of
        Inl e \<Rightarrow> Inl e
      | Inr em \<Rightarrow> Inr \<lparr>rec_tpl = tpl, rec_read = mr, rec_emissions = em,
                       rec_scoreDiff = scoreDiff\<rparr>)"

text \<open>
  The operations of \<open>Template\<close> and \<open>Recursor\<close> that \<open>EvaluatorImpl\<close> calls. Their code is
  not among the source files, so they are parameters of everything below. A call of the
  recursion (\<open>FillAlphaBeta\<close>, \<open>FillAlpha\<close>, \<open>ExtendAlpha\<close>, \<open>ExtendBeta\<close>,
  \<open>LinkAlphaBeta\<close>) returns its result or throws; the matrix that the C++ function
  fills through a reference is the matrix it returns here, and the matrices it only
  reads (\<open>const\<close> references) are arguments. \<open>FillAlpha\<close> takes \<open>None\<close> for the guide
  \<open>ScaledMatrix::Null()\<close>.
\<close>

record 'tpl collaborators =
  tpl_Length :: "'tpl \<Rightarrow> nat"
  tpl_Mutate :: "Mutation \<Rightarrow> 'tpl \<Rightarrow> 'tpl"
  tpl_Reset :: "'tpl \<Rightarrow> 'tpl"
  tpl_NormalParameters :: "'tpl \<Rightarrow> nat \<Rightarrow> nat \<Rightarrow> double \<times> double"
  FillAlphaBeta ::
    "'tpl Recursor \<Rightarrow> ScaledMatrix \<Rightarrow> ScaledMatrix \<Rightarrow> error + ScaledMatrix \<times> ScaledMatrix"
  FillAlpha :: "'tpl Recursor \<Rightarrow> ScaledMatrix option \<Rightarrow> ScaledMatrix \<Rightarrow> error + ScaledMatrix"
  ExtendAlpha ::
    "'tpl Recursor \<Rightarrow> ScaledMatrix \<Rightarrow> nat \<Rightarrow> ScaledMatrix \<Rightarrow> nat \<Rightarrow> error + ScaledMatrix"
  ExtendBeta ::
    "'tpl Recursor \<Rightarrow> ScaledMatrix \<Rightarrow> nat \<Rightarrow> ScaledMatrix \<Rightarrow> int \<Rightarrow> error + ScaledMatrix"
  LinkAlphaBeta ::
    "'tpl Recursor \<Rightarrow> ScaledMatrix \<Rightarrow> nat \<Rightarrow> ScaledMatrix \<Rightarrow> nat \<Rightarrow> nat \<Rightarrow> error + double"

text \<open>
  Modelled from the spec: \<open>Template::UndoCounterWeights\<close>, which \<open>EvaluatorImpl\<close> calls
  through \<open>recursor_.tpl_\<close>. The spec: "\<open>UndoCounterWeights(N) = -N log(20.0)\<close> is added
  back to any final log-likelihood"; that is the value computed by
  \<open>S_P1C1v2_Recursor::UndoCounterWeights\<close> of the model file.
\<close>

definition tpl_UndoCounterWeights :: "nat \<Rightarrow> double" where
  "tpl_UndoCounterWeights nEmissions = Finite (UndoCounterWeights nEmissions)"

section \<open>EvaluatorImpl.cpp\<close>

text \<open>
  The members \<open>recursor_\<close>, \<open>alpha_\<close>, \<open>beta_\<close> and \<open>extendBuffer_\<close> of
  \<open>EvaluatorImpl\<close>, in the order of the constructor's initialiser list.
\<close>

record 'tpl EvaluatorImpl =
  ev_recursor :: "'tpl Recursor"
  ev_alpha :: ScaledMatrix
  ev_beta :: ScaledMatrix
  ev_extendBuffer :: ScaledMatrix

definition EXTEND_BUFFER_COLUMNS :: nat where
  "EXTEND_BUFFER_COLUMNS = 8"

text \<open>\<open>EvaluatorImpl::LL() const\<close>.\<close>

definition LL :: "'tpl EvaluatorImpl \<Rightarrow> double" where
  "LL ev =
     dadd (dadd (dlog (Get (ev_beta ev) 0 0)) (GetLogProdScales_all (ev_beta ev)))
          (tpl_UndoCounterWeights (Length (rec_read (ev_recursor ev))))"

text \<open>
  The constructor \<open>EvaluatorImpl::EvaluatorImpl\<close>: the initialiser list builds the
  recursor and the three matrices, the body fills \<open>alpha_\<close> and \<open>beta_\<close> and throws
  \<open>AlphaBetaMismatch\<close> when \<open>LL()\<close> is not finite. An exception of the recursor's
  constructor or of \<open>FillAlphaBeta\<close> leaves the constructor as it is.
\<close>

definition EvaluatorImpl_new ::
  "'tpl collaborators \<Rightarrow> 'tpl \<Rightarrow> MappedRead \<Rightarrow> real \<Rightarrow> error + 'tpl EvaluatorImpl" where
  "EvaluatorImpl_new ops tpl mr scoreDiff =
     (case Recursor_new tpl mr scoreDiff of
        Inl e \<Rightarrow> Inl e
      | Inr recursor \<Rightarrow>
          (let alpha0 = ScaledMatrix_new (Length mr + 1) (tpl_Length ops (rec_tpl recursor) + 1);
               beta0 = ScaledMatrix_new (Length mr + 1) (tpl_Length ops (rec_tpl recursor) + 1);
               extendBuffer = ScaledMatrix_new (Length mr + 1) EXTEND_BUFFER_COLUMNS
           in case FillAlphaBeta ops recursor alpha0 beta0 of
                Inl e \<Rightarrow> Inl e
              | Inr (alpha, beta) \<Rightarrow>
                  (let ev = \<lparr>ev_recursor = recursor, ev_alpha = alpha, ev_beta = beta,
                             ev_extendBuffer = extendBuffer\<rparr>
                   in if \<not> isfinite (LL ev) then Inl AlphaBetaMismatch else Inr ev)))"

text \<open>
  \<open>EvaluatorImpl::LL(const Mutation&)\<close>, in two parts. \<open>LL_mut_score\<close> is the chain of
  four branches that assigns \<open>score\<close>; it runs on the evaluator whose template already
  carries the virtual mutation, and returns the score, or the exception that a call of
  the recursion threw, together with the evaluator as the branch leaves it. \<open>LL_mut\<close>
  is the whole function: \<open>Mutate\<close>, the branches, then \<open>Reset\<close> and the return
  statement. The source has no handler and no guard object around the branches, so an
  exception leaves the function from the call that threw: the \<open>Inl\<close> case of
  \<open>LL_mut\<close> returns without \<open>Reset\<close>. What a throwing call has written to the extend
  buffer is not known; the model keeps the buffer it had.

  \<open>Start\<close> and \<open>End\<close> are unsigned in the source. \<open>mut.Start() - 1\<close> is only evaluated
  where \<open>mut.Start() \<ge> 3\<close>; \<open>1 + mut.End() + mut.LengthDiff()\<close> is at least 0 as a
  number and is converted back to a size. The three \<open>assert\<close>s are preconditions of the
  source and do not change its control flow; under the one of the second branch,
  \<open>tpl_->Length() + 1 > extendStartCol\<close>, the subtraction of that branch does not wrap.
\<close>

definition LL_mut_score ::
  "'tpl collaborators \<Rightarrow> 'tpl EvaluatorImpl \<Rightarrow> Mutation
     \<Rightarrow> (error + double) \<times> 'tpl EvaluatorImpl" where
  "LL_mut_score ops ev mut =
     (let betaLinkCol = 1 + End mut;
          absoluteLinkColumn = nat (1 + int (End mut) + LengthDiff mut);
          atBegin = (Start mut < 3);
          atEnd = (End mut + 3 > Columns (ev_beta ev));
          N = Length (rec_read (ev_recursor ev))
      in if \<not> atBegin \<and> \<not> atEnd then
           (let extendLength = 2;
                extendStartCol = (if Type mut = DELETION then Start mut - 1 else Start mut)
            in case ExtendAlpha ops (ev_recursor ev) (ev_alpha ev) extendStartCol
                      (ev_extendBuffer ev) extendLength of
                 Inl e \<Rightarrow> (Inl e, ev)
               | Inr buf \<Rightarrow>
                   (case LinkAlphaBeta ops (ev_recursor ev) buf extendLength (ev_beta ev)
                           betaLinkCol absoluteLinkColumn of
                      Inl e \<Rightarrow> (Inl e, ev\<lparr>ev_extendBuffer := buf\<rparr>)
                    | Inr link \<Rightarrow>
                        (Inr (dadd link (GetLogProdScales (ev_alpha ev) 0 extendStartCol)),
                         ev\<lparr>ev_extendBuffer := buf\<rparr>)))
         else if \<not> atBegin \<and> atEnd then
           (let extendStartCol = Start mut - 1;
                extendLength = tpl_Length ops (rec_tpl (ev_recursor ev)) - extendStartCol + 1
            in case ExtendAlpha ops (ev_recursor ev) (ev_alpha ev) extendStartCol
                      (ev_extendBuffer ev) extendLength of
                 Inl e \<Rightarrow> (Inl e, ev)
               | Inr buf \<Rightarrow>
                   (Inr (dadd (dadd (dlog (Get buf N (extendLength - 1)))
                                    (GetLogProdScales (ev_alpha ev) 0 extendStartCol))
                              (GetLogProdScales buf 0 extendLength)),
                    ev\<lparr>ev_extendBuffer := buf\<rparr>))
         else if atBegin \<and> \<not> atEnd then
           (let extendLastCol = End mut;
                extendLength = nat (1 + int (End mut) + LengthDiff mut)
            in case ExtendBeta ops (ev_recursor ev) (ev_beta ev) extendLastCol
                      (ev_extendBuffer ev) (LengthDiff mut) of
                 Inl e \<Rightarrow> (Inl e, ev)
               | Inr buf \<Rightarrow>
                   (Inr (dadd (dadd (dlog (Get buf 0 0))
                                    (GetLogProdScales (ev_beta ev) (extendLastCol + 1)
                                       (Columns (ev_beta ev))))
                              (GetLogProdScales buf 0 extendLength)),
                    ev\<lparr>ev_extendBuffer := buf\<rparr>))
         else
           (let L = tpl_Length ops (rec_tpl (ev_recursor ev));
                alphaP = ScaledMatrix_new (N + 1) (L + 1)
            in case FillAlpha ops (ev_recursor ev) None alphaP of
                 Inl e \<Rightarrow> (Inl e, ev)
               | Inr alphaP' \<Rightarrow>
                   (Inr (dadd (dlog (Get alphaP' N L)) (GetLogProdScales_all alphaP')), ev)))"

definition with_tpl :: "'tpl EvaluatorImpl \<Rightarrow> 'tpl \<Rightarrow> 'tpl EvaluatorImpl" where
  "with_tpl ev t = ev\<lparr>ev_recursor := (ev_recursor ev)\<lparr>rec_tpl := t\<rparr>\<rparr>"

definition LL_mut ::
  "'tpl collaborators \<Rightarrow> 'tpl EvaluatorImpl \<Rightarrow> Mutation
     \<Rightarrow> (error + double) \<times> 'tpl EvaluatorImpl" where
  "LL_mut ops ev mut =
     (let ev1 = with_tpl ev (tpl_Mutate ops mut (rec_tpl (ev_recursor ev)))
      in case LL_mut_score ops ev1 mut of
           (Inl e, ev2) \<Rightarrow> (Inl e, ev2)
         | (Inr score, ev2) \<Rightarrow>
             (let ev3 = with_tpl ev2 (tpl_Reset ops (rec_tpl (ev_recursor ev2)))
              in (Inr (dadd score
                         (tpl_UndoCounterWeights (Length (rec_read (ev_recursor ev3))))),
                  ev3)))"



section \<open>Reference definitions, following the specification\<close>

text \<open>
  The specification describes results position by position. The definitions of this
  section follow its words; the theorems compare them with the functions above.

  A read position is in order when its pulse width is at least 1 and its character is
  one of A, C, G, T.
\<close>

definition position_ok :: "MappedRead \<Rightarrow> nat \<Rightarrow> bool" where
  "position_ok read i = (1 \<le> PulseWidth read ! i \<and> valid_base (Seq read ! i))"

text \<open>The context of two adjacent template characters, \<open>(prev << 2) | curr\<close>.\<close>

definition context_of :: "char \<Rightarrow> char \<Rightarrow> nat" where
  "context_of p c = (push_bit 2 (unat (TranslationTable p))) OR (unat (TranslationTable c))"

text \<open>
  The template position that the specification puts at index \<open>i - 1\<close> for \<open>1 \<le> i < L\<close>:
  the base at \<open>i - 1\<close> with the four transition probabilities of the context
  \<open>(base[i - 1], base[i])\<close>; and the final position.
\<close>

definition position_of :: "S_P1C1v2_Model \<Rightarrow> string \<Rightarrow> nat \<Rightarrow> TemplatePosition" where
  "position_of m tpl i =
     (let params = ctxTrans m ! context_of (tpl ! (i - 1)) (tpl ! i)
      in \<lparr>Base = tpl ! (i - 1), Idx = TranslationTable (tpl ! (i - 1)),
          Match = params ! 0, Branch = params ! 1, Stick = params ! 2, Deletion = params ! 3\<rparr>)"

definition final_position :: "string \<Rightarrow> TemplatePosition" where
  "final_position tpl =
     \<lparr>Base = last tpl, Idx = TranslationTable (last tpl),
      Match = 1, Branch = 0, Stick = 0, Deletion = 0\<rparr>"

text \<open>
  Transition assembly in the words of the specification: the SNR of the context's base
  clamped to the range of that base, the exponential of the cubic polynomial for the
  move \<open>j\<close> (0 branch, 1 stick, 2 deletion), and the sum of 1 and the three exponentials.
\<close>

definition clamped_snr :: "SNR \<Rightarrow> nat \<Rightarrow> real" where
  "clamped_snr snr ctx =
     max (fst (snrRanges ! (ctx AND 3))) (min (SNR_at snr (ctx AND 3)) (snd (snrRanges ! (ctx AND 3))))"

definition softmax_weight :: "SNR \<Rightarrow> nat \<Rightarrow> nat \<Rightarrow> real" where
  "softmax_weight snr ctx j =
     (let s = clamped_snr snr ctx
      in exp (transProbs ! ctx ! j ! 0 + transProbs ! ctx ! j ! 1 * s +
              transProbs ! ctx ! j ! 2 * s\<^sup>2 + transProbs ! ctx ! j ! 3 * s ^ 3))"

definition softmax_total :: "SNR \<Rightarrow> nat \<Rightarrow> real" where
  "softmax_total snr ctx =
     1 + softmax_weight snr ctx 0 + softmax_weight snr ctx 1 + softmax_weight snr ctx 2"

section \<open>Sample inputs\<close>

text \<open>
  Concrete inputs on which the theorems are instantiated. The reads and the SNR are
  those of the specification's scenarios. \<open>sample_ops\<close> is a small instance of the
  collaborators: a template is its string with the pending virtual mutation, if any;
  the calls of the recursion return at once, and the fill returns matrices of ones. In
  \<open>throwing_ops\<close> the call of \<open>ExtendAlpha\<close> throws; in \<open>unfilled_ops\<close> the fill
  returns the matrices as it got them; in \<open>failing_fill_ops\<close> the fill throws.
\<close>

definition sample_read :: MappedRead where
  "sample_read =
     \<lparr>Seq = ''ACGTACGT'', PulseWidth = [1, 1, 1, 1, 1, 1, 1, 1],
      TemplateStart = 0, TemplateEnd = 8\<rparr>"

definition pulse_read :: MappedRead where
  "pulse_read =
     \<lparr>Seq = ''AAAAAA'', PulseWidth = [1, 2, 3, 1, 1, 1],
      TemplateStart = 0, TemplateEnd = 6\<rparr>"

definition mixed_read :: MappedRead where
  "mixed_read = \<lparr>Seq = ''NA'', PulseWidth = [1, 0], TemplateStart = 0, TemplateEnd = 2\<rparr>"

definition sample_model :: S_P1C1v2_Model where
  "sample_model = S_P1C1v2_Model_new (SNR 8.0 8.0 8.0 8.0)"

type_synonym sample_tpl = "string \<times> Mutation option"

definition sample_tpl0 :: sample_tpl where
  "sample_tpl0 = (''ACGTACGT'', None)"

definition ones :: "nat \<Rightarrow> nat \<Rightarrow> ScaledMatrix" where
  "ones rows cols =
     (ScaledMatrix_new rows cols)\<lparr>cells := replicate cols (replicate rows (Finite 1))\<rparr>"

definition sample_ops :: "sample_tpl collaborators" where
  "sample_ops =
     \<lparr>tpl_Length = (\<lambda>t. nat (int (length (fst t)) +
                              (case snd t of None \<Rightarrow> 0 | Some m \<Rightarrow> LengthDiff m))),
      tpl_Mutate = (\<lambda>m t. (fst t, Some m)),
      tpl_Reset = (\<lambda>t. (fst t, None)),
      tpl_NormalParameters = (\<lambda>t s e. (Finite (- 1), Finite 0)),
      FillAlphaBeta = (\<lambda>r a b. Inr (ones (Rows a) (Columns a), ones (Rows b) (Columns b))),
      FillAlpha = (\<lambda>r g a. Inr a),
      ExtendAlpha = (\<lambda>r a c buf n. Inr buf),
      ExtendBeta = (\<lambda>r b c buf d. Inr buf),
      LinkAlphaBeta = (\<lambda>r buf n b c1 c2. Inr (Finite 0))\<rparr>"

definition throwing_ops :: "sample_tpl collaborators" where
  "throwing_ops =
     sample_ops\<lparr>ExtendAlpha := (\<lambda>r a c buf n. Inl (other_exception ''ExtendAlpha''))\<rparr>"

definition sample_recursor :: "sample_tpl Recursor" where
  "sample_recursor =
     \<lparr>rec_tpl = sample_tpl0, rec_read = sample_read,
      rec_emissions = [0, 1, 2, 3, 0, 1, 2, 3], rec_scoreDiff = 12.5\<rparr>"

definition sample_ev :: "sample_tpl EvaluatorImpl" where
  "sample_ev =
     \<lparr>ev_recursor = sample_recursor,
      ev_alpha = ones 9 9,
      ev_beta = ones 9 9,
      ev_extendBuffer = ScaledMatrix_new 9 8\<rparr>"

definition sample_deletion :: Mutation where
  "sample_deletion = \<lparr>Type = DELETION, Start = 4, End = 5, NewBase = None\<rparr>"

definition sample_substitution :: Mutation where
  "sample_substitution = \<lparr>Type = SUBSTITUTION, Start = 6, End = 7, NewBase = Some CHR ''C''\<rparr>"

definition unfilled_ops :: "sample_tpl collaborators" where
  "unfilled_ops = sample_ops\<lparr>FillAlphaBeta := (\<lambda>r a b. Inr (a, b))\<rparr>"

definition failing_fill_ops :: "sample_tpl collaborators" where
  "failing_fill_ops =
     sample_ops\<lparr>FillAlphaBeta := (\<lambda>r a b. Inl (other_exception ''FillAlphaBeta''))\<rparr>"

definition unfilled_ev :: "sample_tpl EvaluatorImpl" where
  "unfilled_ev =
     \<lparr>ev_recursor = sample_recursor,
      ev_alpha = ScaledMatrix_new 9 9,
      ev_beta = ScaledMatrix_new 9 9,
      ev_extendBuffer = ScaledMatrix_new 9 8\<rparr>"

section \<open>The read encoding\<close>

declare EncodeRead_loop.simps [simp del]

lemma uint8_le_3_cases: "(bp::uint8_t) \<le> 3 \<Longrightarrow> bp = 0 \<or> bp = 1 \<or> bp = 2 \<or> bp = 3"
proof -
  assume "bp \<le> 3"
  then have "unat bp \<le> 3" by (simp add: word_le_nat_alt)
  then have "unat bp = 0 \<or> unat bp = 1 \<or> unat bp = 2 \<or> unat bp = 3" by arith
  moreover have "bp = word_of_nat (unat bp)" by simp
  ultimately show ?thesis
    by (elim disjE) simp_all
qed

lemma min2_cases: "min 2 (k::nat) = 0 \<or> min 2 k = 1 \<or> min 2 k = 2"
  by arith

lemma em_le_11:
  assumes "(bp::uint8_t) \<le> 3"
  shows "(push_bit 2 (of_nat (min 2 k) :: uint8_t)) OR bp \<le> 11"
  using uint8_le_3_cases [OF assms] min2_cases [of k]
  by (elim disjE) simp_all

lemma TranslationTable_le_3: "TranslationTable c \<le> 3 \<longleftrightarrow> valid_base c"
  by (simp add: TranslationTable_def valid_base_def)

lemma emission_of_le_11: "TranslationTable c \<le> 3 \<Longrightarrow> emission_of p c \<le> 11"
  unfolding emission_of_def by (rule em_le_11)

lemma EncodeRead_loop_step_ok:
  assumes "i < Length read" "position_ok read i"
  shows "EncodeRead_loop read i result =
         EncodeRead_loop read (i + 1) (result @ [emission_of (PulseWidth read ! i) (Seq read ! i)])"
proof -
  have v: "TranslationTable (Seq read ! i) \<le> 3" and p: "\<not> PulseWidth read ! i < 1"
    using assms(2) by (auto simp: position_ok_def TranslationTable_le_3)
  have b: "\<not> TranslationTable (Seq read ! i) > 3"
    using v by (simp add: not_less)
  have e: "\<not> emission_of (PulseWidth read ! i) (Seq read ! i) > 11"
    using emission_of_le_11 [OF v] by (simp add: not_less)
  show ?thesis
    using assms(1) p b e
    by (subst EncodeRead_loop.simps) (simp add: Let_def emission_of_def)
qed

lemma EncodeRead_loop_step_bad:
  assumes "i < Length read" "\<not> position_ok read i"
  shows "EncodeRead_loop read i result =
         Inl (if PulseWidth read ! i = 0 then InvalidPulseWidth else InvalidBase_read)"
proof (cases "PulseWidth read ! i = 0")
  case True
  then show ?thesis using assms(1)
    by (subst EncodeRead_loop.simps) (simp add: InvalidPulseWidth_def)
next
  case False
  then have "\<not> valid_base (Seq read ! i)" using assms(2) by (simp add: position_ok_def)
  then have "TranslationTable (Seq read ! i) > 3"
    using TranslationTable_le_3 by (simp add: not_le [symmetric])
  then show ?thesis using assms(1) False
    by (subst EncodeRead_loop.simps) (simp add: InvalidBase_read_def Let_def)
qed

lemma EncodeRead_loop_done: "\<not> i < Length read \<Longrightarrow> EncodeRead_loop read i result = Inr result"
  by (subst EncodeRead_loop.simps) simp

lemma EncodeRead_loop_all_ok:
  assumes "\<forall>k. i \<le> k \<and> k < Length read \<longrightarrow> position_ok read k"
  shows "EncodeRead_loop read i result =
         Inr (result @ map (\<lambda>k. emission_of (PulseWidth read ! k) (Seq read ! k)) [i..<Length read])"
  using assms
proof (induction "Length read - i" arbitrary: i result)
  case 0
  then have "\<not> i < Length read" by simp
  then show ?case by (simp add: EncodeRead_loop_done)
next
  case (Suc d)
  then have lt: "i < Length read" by simp
  have ok: "position_ok read i" using Suc.prems lt by simp
  have d: "d = Length read - (i + 1)" using Suc.hyps(2) by simp
  have rest: "\<forall>k. i + 1 \<le> k \<and> k < Length read \<longrightarrow> position_ok read k"
    using Suc.prems by simp
  show ?case
    using Suc.hyps(1) [OF d rest] lt
    by (simp add: EncodeRead_loop_step_ok [OF lt ok] upt_conv_Cons)
qed

lemma EncodeRead_loop_first_bad:
  assumes "i \<le> n" "n < Length read" "\<not> position_ok read n"
    and "\<forall>k. i \<le> k \<and> k < n \<longrightarrow> position_ok read k"
  shows "EncodeRead_loop read i result =
         Inl (if PulseWidth read ! n = 0 then InvalidPulseWidth else InvalidBase_read)"
  using assms
proof (induction "n - i" arbitrary: i result)
  case 0
  then have "i = n" by simp
  then show ?case using 0 by (simp add: EncodeRead_loop_step_bad)
next
  case (Suc d)
  then have lt: "i < n" by simp
  then have lt': "i < Length read" using Suc.prems by simp
  have ok: "position_ok read i" using Suc.prems lt by simp
  have d: "d = n - (i + 1)" using Suc.hyps(2) by simp
  have le: "i + 1 \<le> n" using lt by simp
  have rest: "\<forall>k. i + 1 \<le> k \<and> k < n \<longrightarrow> position_ok read k"
    using Suc.prems by simp
  show ?case
    using Suc.hyps(1) [OF d le Suc.prems(2) Suc.prems(3) rest]
    by (simp add: EncodeRead_loop_step_ok [OF lt' ok])
qed

text \<open>
  Whatever the read, the loop ends in one of three ways: with the pulse-width error, with
  the invalid-character error, or with a vector that extends \<open>result\<close> by one emission of
  at most 11 for each remaining position.
\<close>

lemma EncodeRead_loop_outcomes:
  "EncodeRead_loop read i result = Inl InvalidPulseWidth \<or>
   EncodeRead_loop read i result = Inl InvalidBase_read \<or>
   (\<exists>v. EncodeRead_loop read i result = Inr (result @ v) \<and> (\<forall>e \<in> set v. e \<le> 11)
      \<and> length v = Length read - i)"
proof (induction "Length read - i" arbitrary: i result)
  case 0
  then have "\<not> i < Length read" by simp
  then show ?case by (simp add: EncodeRead_loop_done)
next
  case (Suc d)
  then have lt: "i < Length read" by simp
  have d: "d = Length read - (i + 1)" using Suc.hyps(2) by simp
  show ?case
  proof (cases "position_ok read i")
    case False
    then show ?thesis using EncodeRead_loop_step_bad [OF lt False, of result] by auto
  next
    case True
    let ?em = "emission_of (PulseWidth read ! i) (Seq read ! i)"
    have em: "?em \<le> 11"
      using True emission_of_le_11 by (simp add: position_ok_def TranslationTable_le_3)
    have step: "EncodeRead_loop read i result = EncodeRead_loop read (i + 1) (result @ [?em])"
      by (rule EncodeRead_loop_step_ok [OF lt True])
    from Suc.hyps(1) [OF d, of "result @ [?em]"]
    consider "EncodeRead_loop read (i + 1) (result @ [?em]) = Inl InvalidPulseWidth"
      | "EncodeRead_loop read (i + 1) (result @ [?em]) = Inl InvalidBase_read"
      | v where "EncodeRead_loop read (i + 1) (result @ [?em]) = Inr ((result @ [?em]) @ v)"
          "\<forall>e \<in> set v. e \<le> 11" "length v = Length read - (i + 1)"
      by blast
    then show ?thesis
    proof cases
      case 1
      then show ?thesis using step by simp
    next
      case 2
      then show ?thesis using step by simp
    next
      case 3
      have "EncodeRead_loop read i result = Inr (result @ (?em # v))"
        using step 3(1) by simp
      moreover have "\<forall>e \<in> set (?em # v). e \<le> 11" using em 3(2) by simp
      moreover have "length (?em # v) = Length read - i" using 3(3) lt by simp
      ultimately show ?thesis by blast
    qed
  qed
qed

lemma EncodeRead_outcomes:
  "EncodeRead read = Inl InvalidPulseWidth \<or> EncodeRead read = Inl InvalidBase_read \<or>
   (\<exists>v. EncodeRead read = Inr v \<and> (\<forall>e \<in> set v. e \<le> 11) \<and> length v = Length read)"
  using EncodeRead_loop_outcomes [of read 0 "[]"] by (simp add: EncodeRead_def)

lemma sample_Length: "Length sample_read = 8"
  by (simp add: Length_def sample_read_def)

lemma sample_EncodeRead: "EncodeRead sample_read = Inr [0, 1, 2, 3, 0, 1, 2, 3]"
  by (simp add: EncodeRead_def EncodeRead_loop.simps sample_read_def Length_def
      TranslationTable_def)

lemma pulse_EncodeRead: "EncodeRead pulse_read = Inr [0, 4, 8, 0, 0, 0]"
  by (simp add: EncodeRead_def EncodeRead_loop.simps pulse_read_def Length_def
      TranslationTable_def)

lemma pulse_read_ok: "\<forall>k<Length pulse_read. position_ok pulse_read k"
proof (intro allI impI)
  fix k
  assume "k < Length pulse_read"
  then have "k < 6" by (simp add: Length_def pulse_read_def)
  then have "k = 0 \<or> k = 1 \<or> k = 2 \<or> k = 3 \<or> k = 4 \<or> k = 5"
    by arith
  then show "position_ok pulse_read k"
    by (elim disjE) (simp_all add: position_ok_def pulse_read_def valid_base_def)
qed

text \<open>
  Claim C8, as amended. \<open>EncodeRead\<close> scans the positions of a read (one pulse width per
  base) in order and stops at the first position that is not in order: there it raises
  \<open>InvalidPulseWidth\<close> if the pulse width of that position is zero and \<open>InvalidBase\<close>
  otherwise (the pulse width is tested before the character). If every position is in
  order, it returns the vector of the read's length whose element \<open>i\<close> is
  \<open>(min(pw - 1, 2) << 2) | base\<close>; every element of a returned vector is one of the
  12 outcomes 0..11.
\<close>

theorem EncodeRead_first_offence:
  assumes "length (PulseWidth read) = Length read"
  shows "((\<forall>k<Length read. position_ok read k) \<longrightarrow>
            EncodeRead read =
              Inr (map (\<lambda>k. emission_of (PulseWidth read ! k) (Seq read ! k)) [0..<Length read])) \<and>
         (\<forall>n<Length read. \<not> position_ok read n \<and> (\<forall>k<n. position_ok read k) \<longrightarrow>
            EncodeRead read =
              Inl (if PulseWidth read ! n = 0 then InvalidPulseWidth else InvalidBase_read)) \<and>
         (\<forall>v. EncodeRead read = Inr v \<longrightarrow> length v = Length read \<and> (\<forall>e \<in> set v. e \<le> 11))"
proof (intro conjI impI allI ballI)
  assume "\<forall>k<Length read. position_ok read k"
  then have "\<forall>k. 0 \<le> k \<and> k < Length read \<longrightarrow> position_ok read k" by simp
  from EncodeRead_loop_all_ok [OF this, of "[]"]
  show "EncodeRead read =
          Inr (map (\<lambda>k. emission_of (PulseWidth read ! k) (Seq read ! k)) [0..<Length read])"
    by (simp add: EncodeRead_def)
next
  fix n
  assume n: "n < Length read" and b: "\<not> position_ok read n \<and> (\<forall>k<n. position_ok read k)"
  then have "\<forall>k. 0 \<le> k \<and> k < n \<longrightarrow> position_ok read k" by simp
  from EncodeRead_loop_first_bad [OF _ n _ this, of "[]"] b
  show "EncodeRead read =
          Inl (if PulseWidth read ! n = 0 then InvalidPulseWidth else InvalidBase_read)"
    by (simp add: EncodeRead_def)
next
  fix v
  assume "EncodeRead read = Inr v"
  then show "length v = Length read" using EncodeRead_outcomes [of read] by auto
next
  fix v e
  assume "EncodeRead read = Inr v" "e \<in> set v"
  then show "e \<le> 11" using EncodeRead_outcomes [of read] by auto
qed

theorem EncodeRead_first_offence_witness:
  "length (PulseWidth pulse_read) = Length pulse_read \<and>
   list_all (position_ok pulse_read) [0..<Length pulse_read] \<and>
   EncodeRead pulse_read =
     Inr (map (\<lambda>k. emission_of (PulseWidth pulse_read ! k) (Seq pulse_read ! k))
            [0..<Length pulse_read]) \<and>
   EncodeRead pulse_read = Inr [0, 4, 8, 0, 0, 0]"
proof -
  have wf: "length (PulseWidth pulse_read) = Length pulse_read"
    by (simp add: pulse_read_def Length_def)
  have ok: "list_all (position_ok pulse_read) [0..<Length pulse_read]"
    using pulse_read_ok by (simp add: list_all_iff)
  have "EncodeRead pulse_read =
          Inr (map (\<lambda>k. emission_of (PulseWidth pulse_read ! k) (Seq pulse_read ! k))
                 [0..<Length pulse_read])"
    using EncodeRead_first_offence [OF wf] pulse_read_ok by blast
  then show ?thesis using wf ok pulse_EncodeRead by simp
qed

text \<open>
  The claim as it was written fails on the read \<open>NA\<close> with pulse widths 1 and 0: a pulse
  width is zero, but the scan stops at the character \<open>N\<close> of position 0 and raises
  \<open>InvalidBase\<close>, not \<open>InvalidPulseWidth\<close>.
\<close>

theorem EncodeRead_zero_pulse_width_counterexample:
  "PulseWidth mixed_read ! 1 = 0 \<and>
   EncodeRead mixed_read = Inl (invalid_argument ''invalid character in read!'') \<and>
   EncodeRead mixed_read \<noteq> Inl InvalidPulseWidth"
  by (simp add: EncodeRead_def EncodeRead_loop.simps mixed_read_def Length_def
      TranslationTable_def InvalidPulseWidth_def)

text \<open>
  Claim C9. A read position that passes the pulse-width check (\<open>pw \<ge> 1\<close>) and the base
  check (code at most 3) has an outcome \<open>(min(2, pw - 1) << 2) | base\<close> of at most 11.
  So \<open>EncodeRead\<close> never raises the "read encoding error!" exception, and every
  element of a vector it returns lies in 0..11.
\<close>

theorem ReadEncodingError_unreachable:
  "(\<forall>p c. 1 \<le> p \<and> TranslationTable c \<le> 3 \<longrightarrow> emission_of p c \<le> 11) \<and>
   EncodeRead read \<noteq> Inl (runtime_error ''read encoding error!'') \<and>
   (\<forall>v. EncodeRead read = Inr v \<longrightarrow> (\<forall>e \<in> set v. e \<le> 11))"
proof (intro conjI allI impI ballI)
  fix p :: nat and c :: char
  assume "1 \<le> p \<and> TranslationTable c \<le> 3"
  then show "emission_of p c \<le> 11" by (simp add: emission_of_le_11)
next
  show "EncodeRead read \<noteq> Inl (runtime_error ''read encoding error!'')"
    using EncodeRead_outcomes [of read]
    by (auto simp: InvalidPulseWidth_def InvalidBase_read_def)
next
  fix v e
  assume "EncodeRead read = Inr v" "e \<in> set v"
  then show "e \<le> 11" using EncodeRead_outcomes [of read] by auto
qed

theorem ReadEncodingError_unreachable_witness:
  "(1::nat) \<le> 3 \<and> TranslationTable CHR ''T'' \<le> 3 \<and> emission_of 3 CHR ''T'' \<le> 11 \<and>
   EncodeRead sample_read = Inr [0, 1, 2, 3, 0, 1, 2, 3] \<and>
   list_all (\<lambda>e. e \<le> 11) [0, 1, 2, 3, 0, 1, 2, 3 :: uint8_t]"
proof -
  have t: "TranslationTable CHR ''T'' \<le> 3" by (simp add: TranslationTable_def)
  have p: "(1::nat) \<le> 3" by simp
  have "emission_of 3 CHR ''T'' \<le> 11"
    using ReadEncodingError_unreachable [of sample_read] t p by blast
  moreover have "\<forall>e \<in> set [0, 1, 2, 3, 0, 1, 2, 3 :: uint8_t]. e \<le> 11"
    using ReadEncodingError_unreachable [of sample_read] sample_EncodeRead by blast
  ultimately show ?thesis using t sample_EncodeRead by (simp add: list_all_iff)
qed

section \<open>Populate\<close>

declare Populate_loop.simps [simp del]

text \<open>
  The loop of \<open>Populate\<close> on a template whose characters are all valid, entered at
  \<open>i\<close> with \<open>prev\<close> the code of \<open>tpl[i - 1]\<close>: it appends the positions for \<open>i\<close> up to
  the end, then the final position.
\<close>

lemma Populate_loop_valid:
  assumes "\<forall>c \<in> set tpl. valid_base c" "1 \<le> i" "i \<le> length tpl"
    and "prev = TranslationTable (tpl ! (i - 1))"
  shows "Populate_loop m tpl i prev result =
         Inr (result @ map (position_of m tpl) [i..<length tpl] @ [final_position tpl])"
  using assms
proof (induction "length tpl - i" arbitrary: i prev result)
  case 0
  then have i: "i = length tpl" by simp
  then have "tpl \<noteq> []" using 0 by auto
  then have "last tpl = tpl ! (i - 1)" using i by (simp add: last_conv_nth)
  then show ?case using i 0
    by (subst Populate_loop.simps) (simp add: final_position_def)
next
  case (Suc d)
  then have lt: "i < length tpl" by simp
  have v: "valid_base (tpl ! i)" using Suc.prems(1) lt by simp
  then have b: "\<not> TranslationTable (tpl ! i) > 3"
    using TranslationTable_le_3 by (simp add: not_less)
  have d: "d = length tpl - (i + 1)" using Suc.hyps(2) by simp
  have le: "1 \<le> i + 1" "i + 1 \<le> length tpl" using lt by simp_all
  have step: "Populate_loop m tpl i prev result =
              Populate_loop m tpl (i + 1) (TranslationTable (tpl ! i))
                (result @ [position_of m tpl i])"
    using lt b Suc.prems(4)
    by (subst Populate_loop.simps) (simp add: Let_def position_of_def context_of_def)
  have "Populate_loop m tpl (i + 1) (TranslationTable (tpl ! i)) (result @ [position_of m tpl i]) =
        Inr ((result @ [position_of m tpl i]) @
             map (position_of m tpl) [i + 1..<length tpl] @ [final_position tpl])"
    by (rule Suc.hyps(1) [OF d Suc.prems(1) le]) simp
  then show ?case using lt by (simp add: step upt_conv_Cons)
qed

lemma Populate_valid:
  assumes "\<forall>c \<in> set tpl. valid_base c"
  shows "Populate m tpl =
         Inr (if tpl = [] then []
              else map (position_of m tpl) [1..<length tpl] @ [final_position tpl])"
proof (cases "tpl = []")
  case True
  then show ?thesis by (simp add: Populate_def)
next
  case False
  then have "valid_base (tpl ! 0)" using assms by (cases tpl) auto
  then have b: "\<not> TranslationTable (tpl ! 0) > 3"
    using TranslationTable_le_3 by (simp add: not_less)
  have len: "1 \<le> length tpl" using False by (cases tpl) auto
  have "Populate_loop m tpl 1 (TranslationTable (tpl ! 0)) [] =
        Inr ([] @ map (position_of m tpl) [1..<length tpl] @ [final_position tpl])"
    by (rule Populate_loop_valid) (use assms len in simp_all)
  then show ?thesis
    using False b by (simp add: Populate_def Let_def)
qed

text \<open>
  Claim C7. For a template string of length \<open>L\<close> over A, C, G, T, \<open>Populate\<close> returns
  a sequence of exactly \<open>L\<close> template positions; for \<open>1 \<le> i < L\<close> the position at
  index \<open>i - 1\<close> carries the transition probabilities of the context
  \<open>(base[i - 1], base[i])\<close>; the position at index \<open>L - 1\<close> carries match 1 and branch,
  stick, deletion 0; for the empty string the sequence is empty.
\<close>

theorem Populate_positions:
  assumes "\<forall>c \<in> set tpl. valid_base c"
  shows "\<exists>ps. Populate m tpl = Inr ps \<and> length ps = length tpl \<and>
           (\<forall>i. 1 \<le> i \<and> i < length tpl \<longrightarrow> ps ! (i - 1) = position_of m tpl i) \<and>
           (tpl \<noteq> [] \<longrightarrow> ps ! (length tpl - 1) = final_position tpl) \<and>
           (tpl = [] \<longrightarrow> ps = [])"
proof (cases "tpl = []")
  case True
  then show ?thesis using Populate_valid [OF assms, of m] by simp
next
  case False
  let ?ps = "map (position_of m tpl) [1..<length tpl] @ [final_position tpl]"
  have len: "1 \<le> length tpl" using False by (cases tpl) auto
  have p: "Populate m tpl = Inr ?ps" using Populate_valid [OF assms, of m] False by simp
  have l: "length ?ps = length tpl" using len by simp
  have mid: "\<forall>i. 1 \<le> i \<and> i < length tpl \<longrightarrow> ?ps ! (i - 1) = position_of m tpl i"
    by (auto simp: nth_append)
  have fin: "?ps ! (length tpl - 1) = final_position tpl"
    by (simp add: nth_append)
  show ?thesis using p l mid fin False by blast
qed

theorem Populate_positions_witness:
  "list_all valid_base ''ACGT'' \<and>
   (\<exists>ps. Populate sample_model ''ACGT'' = Inr ps \<and> length ps = 4 \<and>
      ps ! 0 = position_of sample_model ''ACGT'' 1 \<and>
      ps ! 3 = \<lparr>Base = CHR ''T'', Idx = 3, Match = 1, Branch = 0, Stick = 0, Deletion = 0\<rparr>)"
proof -
  have v: "\<forall>c \<in> set ''ACGT''. valid_base c" by (simp add: valid_base_def)
  obtain ps where ps: "Populate sample_model ''ACGT'' = Inr ps" "length ps = length ''ACGT''"
    "\<forall>i. 1 \<le> i \<and> i < length ''ACGT'' \<longrightarrow> ps ! (i - 1) = position_of sample_model ''ACGT'' i"
    "''ACGT'' \<noteq> [] \<longrightarrow> ps ! (length ''ACGT'' - 1) = final_position ''ACGT''"
    using Populate_positions [OF v, of sample_model] by blast
  have 1: "ps ! 0 = position_of sample_model ''ACGT'' 1"
    using ps(3) [rule_format, of 1] by simp
  have 2: "ps ! 3 = \<lparr>Base = CHR ''T'', Idx = 3, Match = 1, Branch = 0, Stick = 0, Deletion = 0\<rparr>"
    using ps(4) by (simp add: final_position_def TranslationTable_def numeral_3_eq_3)
  have 3: "length ps = 4" using ps(2) by simp
  show ?thesis using ps(1) 1 2 3 by (simp add: valid_base_def)
qed

section \<open>Transition probabilities\<close>

lemma upt_0_3: "[0..<3] = [0, 1, 2]"
  by (simp add: upt_rec)

lemma upt_0_4: "[0..<4] = [0, 1, 2, 3]"
  by (simp add: upt_rec)

text \<open>The row that the constructor computes is the normalised row of the specification.\<close>

lemma clip_clamped: "clip (SNR_at snr (ctx AND 3)) (snrRanges ! (ctx AND 3)) = clamped_snr snr ctx"
  by (simp add: clip_def clamped_snr_def)

lemma ctx_logit_weight:
  "exp (ctx_logit ctx j (clamped_snr snr ctx)
          (clamped_snr snr ctx * clamped_snr snr ctx)
          (clamped_snr snr ctx * clamped_snr snr ctx * clamped_snr snr ctx))
   = softmax_weight snr ctx j"
  by (simp add: ctx_logit_def softmax_weight_def Let_def power2_eq_square power3_eq_cube
      mult.commute mult.assoc)

lemma ctxTrans_fill_eq:
  "ctxTrans_fill snr ctx =
     [1 / softmax_total snr ctx,
      softmax_weight snr ctx 0 / softmax_total snr ctx,
      softmax_weight snr ctx 1 / softmax_total snr ctx,
      softmax_weight snr ctx 2 / softmax_total snr ctx]"
  unfolding ctxTrans_fill_def Let_def clip_clamped upt_0_3 upt_0_4
  by (simp add: ctx_logit_weight softmax_total_def)

lemma softmax_weight_pos: "0 < softmax_weight snr ctx j"
  by (simp add: softmax_weight_def Let_def)

lemma softmax_total_gt_1: "1 < softmax_total snr ctx"
  using softmax_weight_pos [of snr ctx 0] softmax_weight_pos [of snr ctx 1]
    softmax_weight_pos [of snr ctx 2]
  by (simp add: softmax_total_def)

lemma and_3_lt_4: "(ctx::nat) AND 3 < 4"
proof -
  have "ctx AND 3 = take_bit 2 ctx"
    by (simp add: take_bit_eq_mask mask_eq_exp_minus_1)
  then show ?thesis by (simp add: take_bit_eq_mod)
qed

lemma snrRanges_ordered: "b < 4 \<Longrightarrow> fst (snrRanges ! b) \<le> snd (snrRanges ! b)"
proof -
  assume "b < 4"
  then have "b = 0 \<or> b = 1 \<or> b = 2 \<or> b = 3" by arith
  then show ?thesis by (elim disjE) (simp_all add: snrRanges_def)
qed

lemma clamped_snr_in_range:
  "fst (snrRanges ! (ctx AND 3)) \<le> clamped_snr snr ctx \<and>
   clamped_snr snr ctx \<le> snd (snrRanges ! (ctx AND 3))"
  using snrRanges_ordered [OF and_3_lt_4, of ctx] by (simp add: clamped_snr_def)

lemma ctxTrans_new:
  "ctx < nContexts \<Longrightarrow> ctxTrans (S_P1C1v2_Model_new snr) ! ctx = ctxTrans_fill snr ctx"
  by (simp add: S_P1C1v2_Model_new_def)

text \<open>
  Claim C6. For every SNR and every context \<open>c\<close> with base \<open>b = c & 3\<close>, the constructor
  clamps \<open>snr[b]\<close> to \<open>snrRanges[b]\<close>, evaluates one cubic polynomial for each of branch,
  stick and deletion, and divides \<open>(1, exp x1, exp x2, exp x3)\<close> by their sum. The four
  transition probabilities of the context sum to 1, match lies in \<open>(0, 1]\<close>, and branch,
  stick and deletion are not negative.
\<close>

theorem ctxTrans_normalised:
  assumes "ctx < nContexts"
  shows "(let p = ctxTrans (S_P1C1v2_Model_new snr) ! ctx;
              s = clamped_snr snr ctx;
              t = softmax_total snr ctx
          in fst (snrRanges ! (ctx AND 3)) \<le> s \<and> s \<le> snd (snrRanges ! (ctx AND 3)) \<and>
             p = [1 / t, softmax_weight snr ctx 0 / t, softmax_weight snr ctx 1 / t,
                  softmax_weight snr ctx 2 / t] \<and>
             p ! 0 + p ! 1 + p ! 2 + p ! 3 = 1 \<and>
             0 < p ! 0 \<and> p ! 0 \<le> 1 \<and> 0 \<le> p ! 1 \<and> 0 \<le> p ! 2 \<and> 0 \<le> p ! 3)"
proof -
  let ?t = "softmax_total snr ctx"
  let ?w = "softmax_weight snr ctx"
  have t: "1 < ?t" by (rule softmax_total_gt_1)
  have w: "0 < ?w 0" "0 < ?w 1" "0 < ?w 2" by (rule softmax_weight_pos)+
  have p: "ctxTrans (S_P1C1v2_Model_new snr) ! ctx = [1 / ?t, ?w 0 / ?t, ?w 1 / ?t, ?w 2 / ?t]"
    using assms by (simp add: ctxTrans_new ctxTrans_fill_eq)
  have "1 / ?t + ?w 0 / ?t + ?w 1 / ?t + ?w 2 / ?t = (1 + ?w 0 + ?w 1 + ?w 2) / ?t"
    by (simp add: add_divide_distrib)
  also have "\<dots> = 1" using t by (simp add: softmax_total_def)
  finally have total: "1 / ?t + ?w 0 / ?t + ?w 1 / ?t + ?w 2 / ?t = 1" .
  have m: "0 < 1 / ?t" "1 / ?t \<le> 1" using t by simp_all
  have o: "0 \<le> ?w 0 / ?t" "0 \<le> ?w 1 / ?t" "0 \<le> ?w 2 / ?t" using t w by simp_all
  show ?thesis
    unfolding Let_def p using clamped_snr_in_range [of ctx snr] total m o by simp
qed

theorem ctxTrans_normalised_witness:
  "(5::nat) < nContexts \<and>
   ctxTrans sample_model ! 5 ! 0 + ctxTrans sample_model ! 5 ! 1 +
   ctxTrans sample_model ! 5 ! 2 + ctxTrans sample_model ! 5 ! 3 = 1 \<and>
   0 < ctxTrans sample_model ! 5 ! 0 \<and> ctxTrans sample_model ! 5 ! 0 \<le> 1 \<and>
   clamped_snr (SNR 8.0 8.0 8.0 8.0) 5 = 8"
proof -
  have c: "(5::nat) < nContexts" by (simp add: nContexts_def)
  have s: "clamped_snr (SNR 8.0 8.0 8.0 8.0) 5 = 8"
    by (simp add: clamped_snr_def snrRanges_def)
  note n = ctxTrans_normalised [OF c, of "SNR 8.0 8.0 8.0 8.0", unfolded Let_def,
      folded sample_model_def]
  have "ctxTrans sample_model ! 5 ! 0 + ctxTrans sample_model ! 5 ! 1 +
        ctxTrans sample_model ! 5 ! 2 + ctxTrans sample_model ! 5 ! 3 = 1"
    using n by blast
  moreover have "0 < ctxTrans sample_model ! 5 ! 0" using n by blast
  moreover have "ctxTrans sample_model ! 5 ! 0 \<le> 1" using n by blast
  ultimately show ?thesis using c s by blast
qed

section \<open>The evaluator\<close>

lemma UndoCounterWeights_eq: "UndoCounterWeights n = - (real n * ln 20)"
  by (simp add: UndoCounterWeights_def kCounterWeight_def)

text \<open>
  Claim C2. For an evaluator whose read has length \<open>N\<close>, \<open>LL()\<close> returns
  \<open>log beta(0,0) + beta.GetLogProdScales() + UndoCounterWeights(N)\<close>, where
  \<open>GetLogProdScales()\<close> is the sum of the log scales of all columns and
  \<open>UndoCounterWeights(N) = - N log 20\<close>, the counter-weight being 20.
\<close>

theorem LL_formula:
  "LL ev =
     dadd (dadd (dlog (Get (ev_beta ev) 0 0))
                (GetLogProdScales (ev_beta ev) 0 (Columns (ev_beta ev))))
          (Finite (UndoCounterWeights (Length (rec_read (ev_recursor ev))))) \<and>
   UndoCounterWeights (Length (rec_read (ev_recursor ev))) =
     - (real (Length (rec_read (ev_recursor ev))) * ln 20) \<and>
   kCounterWeight = 20"
  by (simp add: LL_def GetLogProdScales_all_def tpl_UndoCounterWeights_def UndoCounterWeights_eq
      kCounterWeight_def)

lemma with_tpl_simps:
  "ev_alpha (with_tpl ev t) = ev_alpha ev"
  "ev_beta (with_tpl ev t) = ev_beta ev"
  "ev_extendBuffer (with_tpl ev t) = ev_extendBuffer ev"
  "rec_tpl (ev_recursor (with_tpl ev t)) = t"
  "rec_read (ev_recursor (with_tpl ev t)) = rec_read (ev_recursor ev)"
  by (simp_all add: with_tpl_def)

text \<open>The four branches of \<open>LL(mut)\<close>, each under its own condition on the two predicates.\<close>

lemma LL_mut_score_interior:
  assumes "\<not> Start mut < 3" and "\<not> End mut + 3 > Columns (ev_beta ev)"
  shows "fst (LL_mut_score ops ev mut) =
           (case ExtendAlpha ops (ev_recursor ev) (ev_alpha ev)
                   (if Type mut = DELETION then Start mut - 1 else Start mut)
                   (ev_extendBuffer ev) 2 of
              Inl e \<Rightarrow> Inl e
            | Inr buf \<Rightarrow>
                (case LinkAlphaBeta ops (ev_recursor ev) buf 2 (ev_beta ev) (1 + End mut)
                        (nat (1 + int (End mut) + LengthDiff mut)) of
                   Inl e \<Rightarrow> Inl e
                 | Inr link \<Rightarrow>
                     Inr (dadd link
                            (GetLogProdScales (ev_alpha ev) 0
                               (if Type mut = DELETION then Start mut - 1 else Start mut)))))"
  using assms by (simp add: LL_mut_score_def Let_def split: sum.splits)

lemma LL_mut_score_at_end:
  assumes "\<not> Start mut < 3" and "End mut + 3 > Columns (ev_beta ev)"
  shows "fst (LL_mut_score ops ev mut) =
           (case ExtendAlpha ops (ev_recursor ev) (ev_alpha ev) (Start mut - 1)
                   (ev_extendBuffer ev)
                   (tpl_Length ops (rec_tpl (ev_recursor ev)) - (Start mut - 1) + 1) of
              Inl e \<Rightarrow> Inl e
            | Inr buf \<Rightarrow>
                Inr (dadd (dadd (dlog (Get buf (Length (rec_read (ev_recursor ev)))
                                         (tpl_Length ops (rec_tpl (ev_recursor ev))
                                            - (Start mut - 1) + 1 - 1)))
                                (GetLogProdScales (ev_alpha ev) 0 (Start mut - 1)))
                          (GetLogProdScales buf 0
                             (tpl_Length ops (rec_tpl (ev_recursor ev)) - (Start mut - 1) + 1))))"
  using assms by (simp add: LL_mut_score_def Let_def split: sum.splits)

lemma LL_mut_score_at_begin:
  assumes "Start mut < 3" and "\<not> End mut + 3 > Columns (ev_beta ev)"
  shows "fst (LL_mut_score ops ev mut) =
           (case ExtendBeta ops (ev_recursor ev) (ev_beta ev) (End mut) (ev_extendBuffer ev)
                   (LengthDiff mut) of
              Inl e \<Rightarrow> Inl e
            | Inr buf \<Rightarrow>
                Inr (dadd (dadd (dlog (Get buf 0 0))
                                (GetLogProdScales (ev_beta ev) (End mut + 1)
                                   (Columns (ev_beta ev))))
                          (GetLogProdScales buf 0 (nat (1 + int (End mut) + LengthDiff mut)))))"
  using assms by (simp add: LL_mut_score_def Let_def split: sum.splits)

lemma LL_mut_score_refill:
  assumes "Start mut < 3" and "End mut + 3 > Columns (ev_beta ev)"
  shows "fst (LL_mut_score ops ev mut) =
           (case FillAlpha ops (ev_recursor ev) None
                   (ScaledMatrix_new (Length (rec_read (ev_recursor ev)) + 1)
                      (tpl_Length ops (rec_tpl (ev_recursor ev)) + 1)) of
              Inl e \<Rightarrow> Inl e
            | Inr alphaP \<Rightarrow>
                Inr (dadd (dlog (Get alphaP (Length (rec_read (ev_recursor ev)))
                                   (tpl_Length ops (rec_tpl (ev_recursor ev)))))
                          (GetLogProdScales_all alphaP)))"
  using assms by (simp add: LL_mut_score_def Let_def split: sum.splits)

text \<open>
  The branches of \<open>LL(mut)\<close> write nothing but the extend buffer: alpha, beta and the
  recursor are as they were, whether the branch returns a score or an exception.
\<close>

lemma LL_mut_score_frame:
  "ev_alpha (snd (LL_mut_score ops ev mut)) = ev_alpha ev \<and>
   ev_beta (snd (LL_mut_score ops ev mut)) = ev_beta ev \<and>
   ev_recursor (snd (LL_mut_score ops ev mut)) = ev_recursor ev"
  by (simp add: LL_mut_score_def Let_def split: sum.splits)

text \<open>The result of \<open>LL(mut)\<close> is the result of its branch, with the counter-weights undone.\<close>

lemma LL_mut_result:
  "fst (LL_mut ops ev mut) =
     (case fst (LL_mut_score ops
                  (with_tpl ev (tpl_Mutate ops mut (rec_tpl (ev_recursor ev)))) mut) of
        Inl e \<Rightarrow> Inl e
      | Inr score \<Rightarrow>
          Inr (dadd score (tpl_UndoCounterWeights (Length (rec_read (ev_recursor ev))))))"
proof -
  let ?ev1 = "with_tpl ev (tpl_Mutate ops mut (rec_tpl (ev_recursor ev)))"
  obtain r ev2 where s: "LL_mut_score ops ?ev1 mut = (r, ev2)"
    by (cases "LL_mut_score ops ?ev1 mut")
  have "ev_recursor ev2 = ev_recursor ?ev1"
    using LL_mut_score_frame [of ops ?ev1 mut] s by simp
  then have "rec_read (ev_recursor ev2) = rec_read (ev_recursor ev)"
    by (simp add: with_tpl_simps)
  then show ?thesis using s
    by (cases r) (simp_all add: LL_mut_def Let_def with_tpl_simps)
qed

text \<open>
  Claim C3. \<open>LL(mut)\<close> chooses its strategy by \<open>atBegin = (mut.start < 3)\<close> and
  \<open>atEnd = (mut.end + 3 > beta.cols)\<close>: each of the four combinations of the two
  predicates has its own branch (extend alpha and link; extend alpha to the end; extend
  beta to column 0; refill), run on the recursor whose template carries the virtual
  mutation. When both predicates are false, \<open>LL(mut)\<close> extends alpha over 2 columns, from
  column \<open>start - 1\<close> for a deletion and from \<open>start\<close> otherwise, links the extended
  buffer to beta at column \<open>1 + end\<close> with absolute column \<open>1 + end + lengthDiff\<close>, and
  the score before the counter-weights are undone is the link value plus
  \<open>alpha.GetLogProdScales(0, extendStartCol)\<close>.
\<close>

theorem LL_mut_strategy:
  assumes "ev1 = with_tpl ev (tpl_Mutate ops mut (rec_tpl (ev_recursor ev)))"
    and "atBegin = (Start mut < 3)"
    and "atEnd = (End mut + 3 > Columns (ev_beta ev))"
    and "extendStartCol = (if Type mut = DELETION then Start mut - 1 else Start mut)"
    and "N = Length (rec_read (ev_recursor ev))"
    and "L = tpl_Length ops (rec_tpl (ev_recursor ev1))"
  shows
    "(\<not> atBegin \<and> \<not> atEnd \<longrightarrow>
        fst (LL_mut_score ops ev1 mut) =
          (case ExtendAlpha ops (ev_recursor ev1) (ev_alpha ev) extendStartCol
                  (ev_extendBuffer ev) 2 of
             Inl e \<Rightarrow> Inl e
           | Inr buf \<Rightarrow>
               (case LinkAlphaBeta ops (ev_recursor ev1) buf 2 (ev_beta ev) (1 + End mut)
                       (nat (1 + int (End mut) + LengthDiff mut)) of
                  Inl e \<Rightarrow> Inl e
                | Inr link \<Rightarrow>
                    Inr (dadd link (GetLogProdScales (ev_alpha ev) 0 extendStartCol))))) \<and>
     (\<not> atBegin \<and> atEnd \<longrightarrow>
        fst (LL_mut_score ops ev1 mut) =
          (case ExtendAlpha ops (ev_recursor ev1) (ev_alpha ev) (Start mut - 1)
                  (ev_extendBuffer ev) (L - (Start mut - 1) + 1) of
             Inl e \<Rightarrow> Inl e
           | Inr buf \<Rightarrow>
               Inr (dadd (dadd (dlog (Get buf N (L - (Start mut - 1) + 1 - 1)))
                               (GetLogProdScales (ev_alpha ev) 0 (Start mut - 1)))
                         (GetLogProdScales buf 0 (L - (Start mut - 1) + 1))))) \<and>
     (atBegin \<and> \<not> atEnd \<longrightarrow>
        fst (LL_mut_score ops ev1 mut) =
          (case ExtendBeta ops (ev_recursor ev1) (ev_beta ev) (End mut) (ev_extendBuffer ev)
                  (LengthDiff mut) of
             Inl e \<Rightarrow> Inl e
           | Inr buf \<Rightarrow>
               Inr (dadd (dadd (dlog (Get buf 0 0))
                               (GetLogProdScales (ev_beta ev) (End mut + 1)
                                  (Columns (ev_beta ev))))
                         (GetLogProdScales buf 0 (nat (1 + int (End mut) + LengthDiff mut)))))) \<and>
     (atBegin \<and> atEnd \<longrightarrow>
        fst (LL_mut_score ops ev1 mut) =
          (case FillAlpha ops (ev_recursor ev1) None (ScaledMatrix_new (N + 1) (L + 1)) of
             Inl e \<Rightarrow> Inl e
           | Inr alphaP \<Rightarrow>
               Inr (dadd (dlog (Get alphaP N L)) (GetLogProdScales_all alphaP)))) \<and>
     fst (LL_mut ops ev mut) =
       (case fst (LL_mut_score ops ev1 mut) of
          Inl e \<Rightarrow> Inl e
        | Inr score \<Rightarrow> Inr (dadd score (tpl_UndoCounterWeights N))) \<and>
     (\<forall>buf link.
        \<not> atBegin \<and> \<not> atEnd \<and>
        ExtendAlpha ops (ev_recursor ev1) (ev_alpha ev) extendStartCol (ev_extendBuffer ev) 2
          = Inr buf \<and>
        LinkAlphaBeta ops (ev_recursor ev1) buf 2 (ev_beta ev) (1 + End mut)
          (nat (1 + int (End mut) + LengthDiff mut)) = Inr link \<longrightarrow>
        fst (LL_mut_score ops ev1 mut) =
          Inr (dadd link (GetLogProdScales (ev_alpha ev) 0 extendStartCol)) \<and>
        fst (LL_mut ops ev mut) =
          Inr (dadd (dadd link (GetLogProdScales (ev_alpha ev) 0 extendStartCol))
                    (tpl_UndoCounterWeights N)))"
proof -
  have a: "ev_alpha ev1 = ev_alpha ev" and b: "ev_beta ev1 = ev_beta ev"
    and x: "ev_extendBuffer ev1 = ev_extendBuffer ev"
    and r: "rec_read (ev_recursor ev1) = rec_read (ev_recursor ev)"
    using assms(1) by (simp_all add: with_tpl_simps)
  have res: "fst (LL_mut ops ev mut) =
       (case fst (LL_mut_score ops ev1 mut) of
          Inl e \<Rightarrow> Inl e
        | Inr score \<Rightarrow> Inr (dadd score (tpl_UndoCounterWeights N)))"
    unfolding assms(1) assms(5) by (rule LL_mut_result)
  have c1: "\<not> atBegin \<and> \<not> atEnd \<longrightarrow>
        fst (LL_mut_score ops ev1 mut) =
          (case ExtendAlpha ops (ev_recursor ev1) (ev_alpha ev) extendStartCol
                  (ev_extendBuffer ev) 2 of
             Inl e \<Rightarrow> Inl e
           | Inr buf \<Rightarrow>
               (case LinkAlphaBeta ops (ev_recursor ev1) buf 2 (ev_beta ev) (1 + End mut)
                       (nat (1 + int (End mut) + LengthDiff mut)) of
                  Inl e \<Rightarrow> Inl e
                | Inr link \<Rightarrow>
                    Inr (dadd link (GetLogProdScales (ev_alpha ev) 0 extendStartCol))))"
    using LL_mut_score_interior [of mut ev1 ops]
    unfolding a b x assms(2) assms(3) assms(4) by blast
  have c2: "\<not> atBegin \<and> atEnd \<longrightarrow>
        fst (LL_mut_score ops ev1 mut) =
          (case ExtendAlpha ops (ev_recursor ev1) (ev_alpha ev) (Start mut - 1)
                  (ev_extendBuffer ev) (L - (Start mut - 1) + 1) of
             Inl e \<Rightarrow> Inl e
           | Inr buf \<Rightarrow>
               Inr (dadd (dadd (dlog (Get buf N (L - (Start mut - 1) + 1 - 1)))
                               (GetLogProdScales (ev_alpha ev) 0 (Start mut - 1)))
                         (GetLogProdScales buf 0 (L - (Start mut - 1) + 1))))"
    using LL_mut_score_at_end [of mut ev1 ops]
    unfolding a b x r assms(2) assms(3) assms(5) assms(6) by blast
  have c3: "atBegin \<and> \<not> atEnd \<longrightarrow>
        fst (LL_mut_score ops ev1 mut) =
          (case ExtendBeta ops (ev_recursor ev1) (ev_beta ev) (End mut) (ev_extendBuffer ev)
                  (LengthDiff mut) of
             Inl e \<Rightarrow> Inl e
           | Inr buf \<Rightarrow>
               Inr (dadd (dadd (dlog (Get buf 0 0))
                               (GetLogProdScales (ev_beta ev) (End mut + 1)
                                  (Columns (ev_beta ev))))
                         (GetLogProdScales buf 0 (nat (1 + int (End mut) + LengthDiff mut)))))"
    using LL_mut_score_at_begin [of mut ev1 ops]
    unfolding a b x assms(2) assms(3) by blast
  have c4: "atBegin \<and> atEnd \<longrightarrow>
        fst (LL_mut_score ops ev1 mut) =
          (case FillAlpha ops (ev_recursor ev1) None (ScaledMatrix_new (N + 1) (L + 1)) of
             Inl e \<Rightarrow> Inl e
           | Inr alphaP \<Rightarrow>
               Inr (dadd (dlog (Get alphaP N L)) (GetLogProdScales_all alphaP)))"
    using LL_mut_score_refill [of mut ev1 ops]
    unfolding b r assms(2) assms(3) assms(5) assms(6) by blast
  have c5: "\<forall>buf link.
        \<not> atBegin \<and> \<not> atEnd \<and>
        ExtendAlpha ops (ev_recursor ev1) (ev_alpha ev) extendStartCol (ev_extendBuffer ev) 2
          = Inr buf \<and>
        LinkAlphaBeta ops (ev_recursor ev1) buf 2 (ev_beta ev) (1 + End mut)
          (nat (1 + int (End mut) + LengthDiff mut)) = Inr link \<longrightarrow>
        fst (LL_mut_score ops ev1 mut) =
          Inr (dadd link (GetLogProdScales (ev_alpha ev) 0 extendStartCol)) \<and>
        fst (LL_mut ops ev mut) =
          Inr (dadd (dadd link (GetLogProdScales (ev_alpha ev) 0 extendStartCol))
                    (tpl_UndoCounterWeights N))"
    using c1 res by simp
  show ?thesis using c1 c2 c3 c4 res c5 by (intro conjI)
qed

lemma sample_interior:
  "\<not> Start sample_deletion < 3" "\<not> End sample_deletion + 3 > Columns (ev_beta sample_ev)"
  by (simp_all add: sample_deletion_def sample_ev_def ScaledMatrix_new_def ones_def)

lemma sample_at_end:
  "\<not> Start sample_substitution < 3" "End sample_substitution + 3 > Columns (ev_beta sample_ev)"
  by (simp_all add: sample_substitution_def sample_ev_def ScaledMatrix_new_def ones_def)

lemma sample_ev_Length: "Length (rec_read (ev_recursor sample_ev)) = 8"
  by (simp add: sample_ev_def sample_recursor_def sample_Length)

lemma ones_scales: "GetLogProdScales (ones 9 9) 0 5 = Finite 0"
  by (simp add: GetLogProdScales_def ScaledMatrix_new_def ones_def upt_rec)

lemma fresh_scales: "GetLogProdScales (ScaledMatrix_new 9 8) 0 4 = Finite 0"
  by (simp add: GetLogProdScales_def ScaledMatrix_new_def upt_rec)

lemma fresh_cell: "Get (ScaledMatrix_new 9 8) 8 3 = Finite 0"
  by (simp add: Get_def ScaledMatrix_new_def)

theorem LL_mut_strategy_witness:
  "\<not> Start sample_deletion < 3 \<and> \<not> End sample_deletion + 3 > Columns (ev_beta sample_ev) \<and>
   fst (LL_mut sample_ops sample_ev sample_deletion) =
     Inr (dadd (dadd (Finite 0) (GetLogProdScales (ev_alpha sample_ev) 0 3))
               (tpl_UndoCounterWeights 8)) \<and>
   \<not> Start sample_substitution < 3 \<and>
   End sample_substitution + 3 > Columns (ev_beta sample_ev) \<and>
   fst (LL_mut sample_ops sample_ev sample_substitution) = Inr NegInf"
proof -
  let ?d = "with_tpl sample_ev
              (tpl_Mutate sample_ops sample_deletion (rec_tpl (ev_recursor sample_ev)))"
  let ?s = "with_tpl sample_ev
              (tpl_Mutate sample_ops sample_substitution (rec_tpl (ev_recursor sample_ev)))"
  have 1: "ExtendAlpha sample_ops (ev_recursor ?d) (ev_alpha sample_ev) 3
             (ev_extendBuffer sample_ev) 2 = Inr (ev_extendBuffer sample_ev)"
    by (simp add: sample_ops_def)
  have 2: "LinkAlphaBeta sample_ops (ev_recursor ?d) (ev_extendBuffer sample_ev) 2
             (ev_beta sample_ev) (1 + End sample_deletion)
             (nat (1 + int (End sample_deletion) + LengthDiff sample_deletion))
           = Inr (Finite 0)"
    by (simp add: sample_ops_def)
  have 3: "(3::nat) = (if Type sample_deletion = DELETION then Start sample_deletion - 1
                       else Start sample_deletion)"
    by (simp add: sample_deletion_def)
  note d = LL_mut_strategy [where ops = sample_ops and ev = sample_ev and mut = sample_deletion,
      OF refl refl refl 3 refl refl]
  have dr: "fst (LL_mut sample_ops sample_ev sample_deletion) =
              Inr (dadd (dadd (Finite 0) (GetLogProdScales (ev_alpha sample_ev) 0 3))
                        (tpl_UndoCounterWeights (Length (rec_read (ev_recursor sample_ev)))))"
    using d sample_interior 1 2 by blast
  have 4: "tpl_Length sample_ops (rec_tpl (ev_recursor ?s)) = 8"
    by (simp add: with_tpl_simps sample_ops_def sample_ev_def sample_recursor_def
        sample_tpl0_def sample_substitution_def LengthDiff_def)
  have 5: "Start sample_substitution - 1 = 5" by (simp add: sample_substitution_def)
  have 6: "ExtendAlpha sample_ops (ev_recursor ?s) (ev_alpha sample_ev) 5
             (ev_extendBuffer sample_ev) 4 = Inr (ScaledMatrix_new 9 8)"
    by (simp add: sample_ops_def sample_ev_def)
  note s = LL_mut_strategy [where ops = sample_ops and ev = sample_ev
      and mut = sample_substitution, OF refl refl refl refl refl refl]
  have "fst (LL_mut_score sample_ops ?s sample_substitution) =
          (case ExtendAlpha sample_ops (ev_recursor ?s) (ev_alpha sample_ev)
                  (Start sample_substitution - 1) (ev_extendBuffer sample_ev)
                  (tpl_Length sample_ops (rec_tpl (ev_recursor ?s))
                     - (Start sample_substitution - 1) + 1) of
             Inl e \<Rightarrow> Inl e
           | Inr buf \<Rightarrow>
               Inr (dadd (dadd (dlog (Get buf (Length (rec_read (ev_recursor sample_ev)))
                                        (tpl_Length sample_ops (rec_tpl (ev_recursor ?s))
                                           - (Start sample_substitution - 1) + 1 - 1)))
                               (GetLogProdScales (ev_alpha sample_ev) 0
                                  (Start sample_substitution - 1)))
                         (GetLogProdScales buf 0
                            (tpl_Length sample_ops (rec_tpl (ev_recursor ?s))
                               - (Start sample_substitution - 1) + 1))))"
    using s sample_at_end by blast
  then have sc: "fst (LL_mut_score sample_ops ?s sample_substitution) = Inr NegInf"
    unfolding 4 5 by (simp add: 6 sample_ev_Length fresh_cell fresh_scales)
       (simp add: sample_ev_def ones_scales)
  have "fst (LL_mut sample_ops sample_ev sample_substitution) =
          (case fst (LL_mut_score sample_ops ?s sample_substitution) of
             Inl e \<Rightarrow> Inl e
           | Inr score \<Rightarrow>
               Inr (dadd score (tpl_UndoCounterWeights (Length (rec_read (ev_recursor sample_ev))))))"
    using s by blast
  then have sr: "fst (LL_mut sample_ops sample_ev sample_substitution) = Inr NegInf"
    by (simp add: sc tpl_UndoCounterWeights_def)
  show ?thesis using dr sr sample_interior sample_at_end by (simp add: sample_ev_Length)
qed

lemma with_tpl_restore:
  "ev_recursor ev2 = ev_recursor (with_tpl ev t) \<Longrightarrow>
   ev_recursor (with_tpl ev2 (rec_tpl (ev_recursor ev))) = ev_recursor ev"
  by (simp add: with_tpl_def)

text \<open>
  Claim C4, as amended. For every mutation, a call of \<open>LL(mut)\<close> does not write the
  alpha and beta matrices, on any exit path. When the call returns a score, the template
  has been reset: if \<open>Reset\<close> undoes \<open>Mutate\<close> on the template of the evaluator, the
  recursor (template, read, encoded read, threshold) is as it was before the call, so
  the call has changed nothing but the extend buffer.
\<close>

theorem LL_mut_frame:
  assumes "tpl_Reset ops (tpl_Mutate ops mut (rec_tpl (ev_recursor ev))) = rec_tpl (ev_recursor ev)"
  shows "ev_alpha (snd (LL_mut ops ev mut)) = ev_alpha ev \<and>
         ev_beta (snd (LL_mut ops ev mut)) = ev_beta ev \<and>
         (\<forall>score. fst (LL_mut ops ev mut) = Inr score \<longrightarrow>
            ev_recursor (snd (LL_mut ops ev mut)) = ev_recursor ev)"
proof -
  let ?ev1 = "with_tpl ev (tpl_Mutate ops mut (rec_tpl (ev_recursor ev)))"
  obtain r ev2 where s: "LL_mut_score ops ?ev1 mut = (r, ev2)"
    by (cases "LL_mut_score ops ?ev1 mut")
  have f: "ev_alpha ev2 = ev_alpha ev" "ev_beta ev2 = ev_beta ev"
    "ev_recursor ev2 = ev_recursor ?ev1"
    using LL_mut_score_frame [of ops ?ev1 mut] s by (simp_all add: with_tpl_simps)
  show ?thesis
  proof (cases r)
    case (Inl e)
    then show ?thesis using s f by (simp add: LL_mut_def Let_def)
  next
    case (Inr score)
    have t: "rec_tpl (ev_recursor ev2) = tpl_Mutate ops mut (rec_tpl (ev_recursor ev))"
      using f(3) by (simp add: with_tpl_simps)
    have "ev_recursor (with_tpl ev2 (rec_tpl (ev_recursor ev))) = ev_recursor ev"
      using f(3) by (rule with_tpl_restore)
    then show ?thesis using Inr s f t assms
      by (simp add: LL_mut_def Let_def with_tpl_simps)
  qed
qed

theorem LL_mut_frame_witness:
  "tpl_Reset sample_ops (tpl_Mutate sample_ops sample_deletion (rec_tpl (ev_recursor sample_ev)))
     = rec_tpl (ev_recursor sample_ev) \<and>
   fst (LL_mut sample_ops sample_ev sample_deletion) = Inr (Finite (UndoCounterWeights 8)) \<and>
   ev_alpha (snd (LL_mut sample_ops sample_ev sample_deletion)) = ev_alpha sample_ev \<and>
   ev_beta (snd (LL_mut sample_ops sample_ev sample_deletion)) = ev_beta sample_ev \<and>
   ev_recursor (snd (LL_mut sample_ops sample_ev sample_deletion)) = ev_recursor sample_ev"
proof -
  have h: "tpl_Reset sample_ops
             (tpl_Mutate sample_ops sample_deletion (rec_tpl (ev_recursor sample_ev)))
           = rec_tpl (ev_recursor sample_ev)"
    by (simp add: sample_ops_def sample_ev_def sample_recursor_def sample_tpl0_def)
  have g: "GetLogProdScales (ones 9 9) 0 3 = Finite 0"
    by (simp add: GetLogProdScales_def ScaledMatrix_new_def ones_def upt_rec)
  have r: "fst (LL_mut sample_ops sample_ev sample_deletion) = Inr (Finite (UndoCounterWeights 8))"
    using sample_interior g
    by (simp add: LL_mut_def LL_mut_score_def Let_def with_tpl_def sample_ops_def
        sample_ev_def sample_recursor_def sample_deletion_def tpl_UndoCounterWeights_def
        sample_Length)
  note f = LL_mut_frame [OF h]
  have "ev_recursor (snd (LL_mut sample_ops sample_ev sample_deletion)) = ev_recursor sample_ev"
    using f r by blast
  then show ?thesis using f h r by blast
qed

text \<open>
  The claim as it was written fails on an exceptional exit: when \<open>ExtendAlpha\<close> throws,
  the exception leaves \<open>LL(mut)\<close> before \<open>Reset\<close> is reached, and the template still
  carries the virtual mutation.
\<close>

theorem LL_mut_exception_counterexample:
  "fst (LL_mut throwing_ops sample_ev sample_deletion) = Inl (other_exception ''ExtendAlpha'') \<and>
   rec_tpl (ev_recursor sample_ev) = (''ACGTACGT'', None) \<and>
   rec_tpl (ev_recursor (snd (LL_mut throwing_ops sample_ev sample_deletion)))
     = (''ACGTACGT'', Some sample_deletion) \<and>
   tpl_Reset throwing_ops (tpl_Mutate throwing_ops sample_deletion (rec_tpl (ev_recursor sample_ev)))
     = rec_tpl (ev_recursor sample_ev)"
  using sample_interior
  by (simp add: LL_mut_def LL_mut_score_def Let_def with_tpl_def throwing_ops_def sample_ops_def
      sample_ev_def sample_recursor_def sample_tpl0_def sample_deletion_def)

lemma Recursor_new_tpl:
  "Recursor_new tpl mr scoreDiff = Inr recursor \<Longrightarrow> rec_tpl recursor = tpl"
  by (auto simp: Recursor_new_def split: sum.splits)

text \<open>
  Claim C5. The constructor fills alpha and beta at once, by \<open>FillAlphaBeta\<close> on two
  fresh matrices of \<open>N + 1\<close> rows and \<open>L + 1\<close> columns, and raises \<open>AlphaBetaMismatch\<close>
  if and only if \<open>LL()\<close> of the filled evaluator is not finite. An exception of the
  recursor's constructor or of the fill leaves the constructor as it is; once the fill has
  returned, the constructor raises \<open>AlphaBetaMismatch\<close> exactly when \<open>LL()\<close> is not
  finite and yields the filled evaluator otherwise; and every evaluator that the
  constructor yields has a finite \<open>LL()\<close>, the matrices that the fill returned and a
  fresh extend buffer of 8 columns.
\<close>

theorem EvaluatorImpl_new_mismatch:
  assumes "fresh = ScaledMatrix_new (Length mr + 1) (tpl_Length ops tpl + 1)"
    and "extendBuffer = ScaledMatrix_new (Length mr + 1) EXTEND_BUFFER_COLUMNS"
  shows
    "(\<forall>e. Recursor_new tpl mr scoreDiff = Inl e \<longrightarrow>
        EvaluatorImpl_new ops tpl mr scoreDiff = Inl e) \<and>
     (\<forall>recursor e.
        Recursor_new tpl mr scoreDiff = Inr recursor \<and>
        FillAlphaBeta ops recursor fresh fresh = Inl e \<longrightarrow>
        EvaluatorImpl_new ops tpl mr scoreDiff = Inl e) \<and>
     (\<forall>recursor alpha beta.
        Recursor_new tpl mr scoreDiff = Inr recursor \<and>
        FillAlphaBeta ops recursor fresh fresh = Inr (alpha, beta) \<longrightarrow>
        (EvaluatorImpl_new ops tpl mr scoreDiff = Inl AlphaBetaMismatch \<longleftrightarrow>
           \<not> isfinite (LL \<lparr>ev_recursor = recursor, ev_alpha = alpha, ev_beta = beta,
                             ev_extendBuffer = extendBuffer\<rparr>)) \<and>
        (isfinite (LL \<lparr>ev_recursor = recursor, ev_alpha = alpha, ev_beta = beta,
                        ev_extendBuffer = extendBuffer\<rparr>) \<longrightarrow>
           EvaluatorImpl_new ops tpl mr scoreDiff =
             Inr \<lparr>ev_recursor = recursor, ev_alpha = alpha, ev_beta = beta,
                   ev_extendBuffer = extendBuffer\<rparr>)) \<and>
     (\<forall>ev. EvaluatorImpl_new ops tpl mr scoreDiff = Inr ev \<longrightarrow>
        isfinite (LL ev) \<and>
        Recursor_new tpl mr scoreDiff = Inr (ev_recursor ev) \<and>
        FillAlphaBeta ops (ev_recursor ev) fresh fresh = Inr (ev_alpha ev, ev_beta ev) \<and>
        ev_extendBuffer ev = extendBuffer)"
proof (intro conjI allI impI)
  fix e
  assume "Recursor_new tpl mr scoreDiff = Inl e"
  then show "EvaluatorImpl_new ops tpl mr scoreDiff = Inl e"
    by (simp add: EvaluatorImpl_new_def)
next
  fix recursor e
  assume h: "Recursor_new tpl mr scoreDiff = Inr recursor \<and>
             FillAlphaBeta ops recursor fresh fresh = Inl e"
  then have "Recursor_new tpl mr scoreDiff = Inr recursor" by simp
  then have "rec_tpl recursor = tpl" by (rule Recursor_new_tpl)
  then show "EvaluatorImpl_new ops tpl mr scoreDiff = Inl e"
    using h assms(1) by (simp add: EvaluatorImpl_new_def Let_def)
next
  fix recursor alpha beta
  assume h: "Recursor_new tpl mr scoreDiff = Inr recursor \<and>
             FillAlphaBeta ops recursor fresh fresh = Inr (alpha, beta)"
  then have "Recursor_new tpl mr scoreDiff = Inr recursor" by simp
  then have t: "rec_tpl recursor = tpl" by (rule Recursor_new_tpl)
  show "EvaluatorImpl_new ops tpl mr scoreDiff = Inl AlphaBetaMismatch \<longleftrightarrow>
          \<not> isfinite (LL \<lparr>ev_recursor = recursor, ev_alpha = alpha, ev_beta = beta,
                            ev_extendBuffer = extendBuffer\<rparr>)"
    using h t assms by (simp add: EvaluatorImpl_new_def Let_def)
  assume "isfinite (LL \<lparr>ev_recursor = recursor, ev_alpha = alpha, ev_beta = beta,
                         ev_extendBuffer = extendBuffer\<rparr>)"
  then show "EvaluatorImpl_new ops tpl mr scoreDiff =
               Inr \<lparr>ev_recursor = recursor, ev_alpha = alpha, ev_beta = beta,
                     ev_extendBuffer = extendBuffer\<rparr>"
    using h t assms by (simp add: EvaluatorImpl_new_def Let_def)
next
  fix ev
  assume n: "EvaluatorImpl_new ops tpl mr scoreDiff = Inr ev"
  then obtain recursor where r: "Recursor_new tpl mr scoreDiff = Inr recursor"
    by (cases "Recursor_new tpl mr scoreDiff") (simp_all add: EvaluatorImpl_new_def)
  then have "Recursor_new tpl mr scoreDiff = Inr recursor" by simp
  then have t: "rec_tpl recursor = tpl" by (rule Recursor_new_tpl)
  obtain alpha beta where f: "FillAlphaBeta ops recursor fresh fresh = Inr (alpha, beta)"
    using n r t assms(1)
    by (cases "FillAlphaBeta ops recursor fresh fresh")
      (auto simp: EvaluatorImpl_new_def Let_def)
  let ?ev = "\<lparr>ev_recursor = recursor, ev_alpha = alpha, ev_beta = beta,
               ev_extendBuffer = extendBuffer\<rparr>"
  have fin: "isfinite (LL ?ev)" and eq: "ev = ?ev"
    using n r t f assms by (auto simp: EvaluatorImpl_new_def Let_def split: if_splits)
  show "isfinite (LL ev)" using fin eq by simp
  show "Recursor_new tpl mr scoreDiff = Inr (ev_recursor ev)" using r eq by simp
  show "FillAlphaBeta ops (ev_recursor ev) fresh fresh = Inr (ev_alpha ev, ev_beta ev)"
    using f eq by simp
  show "ev_extendBuffer ev = extendBuffer" using eq by simp
qed

theorem EvaluatorImpl_new_mismatch_witness:
  "Recursor_new sample_tpl0 sample_read 12.5 = Inr sample_recursor \<and>
   isfinite (LL sample_ev) \<and>
   EvaluatorImpl_new sample_ops sample_tpl0 sample_read 12.5 = Inr sample_ev \<and>
   \<not> isfinite (LL unfilled_ev) \<and>
   EvaluatorImpl_new unfilled_ops sample_tpl0 sample_read 12.5 = Inl AlphaBetaMismatch \<and>
   EvaluatorImpl_new failing_fill_ops sample_tpl0 sample_read 12.5 =
     Inl (other_exception ''FillAlphaBeta'')"
proof -
  let ?fresh = "\<lambda>ops. ScaledMatrix_new (Length sample_read + 1) (tpl_Length ops sample_tpl0 + 1)"
  have 1: "Recursor_new sample_tpl0 sample_read 12.5 = Inr sample_recursor"
    by (simp add: Recursor_new_def sample_EncodeRead sample_recursor_def)
  have x: "ScaledMatrix_new (Length sample_read + 1) EXTEND_BUFFER_COLUMNS = ScaledMatrix_new 9 8"
    by (simp add: sample_Length EXTEND_BUFFER_COLUMNS_def)
  have 2: "FillAlphaBeta sample_ops sample_recursor (?fresh sample_ops) (?fresh sample_ops)
           = Inr (ones 9 9, ones 9 9)"
    by (simp add: sample_ops_def sample_Length ScaledMatrix_new_def sample_tpl0_def)
  have g: "GetLogProdScales_all (ones 9 9) = Finite 0"
    by (simp add: GetLogProdScales_all_def GetLogProdScales_def ones_def ScaledMatrix_new_def
        upt_rec)
  have c: "Get (ones 9 9) 0 0 = Finite 1"
    by (simp add: Get_def ones_def ScaledMatrix_new_def)
  have fin: "isfinite (LL sample_ev)"
    by (simp add: LL_def sample_ev_def g c tpl_UndoCounterWeights_def)
  note a = EvaluatorImpl_new_mismatch [where ops = sample_ops and tpl = sample_tpl0
      and mr = sample_read and scoreDiff = "12.5", OF refl refl, unfolded x,
      folded sample_ev_def]
  have ok: "EvaluatorImpl_new sample_ops sample_tpl0 sample_read 12.5 = Inr sample_ev"
    using a 1 2 fin unfolding sample_ev_def by blast
  have 3: "FillAlphaBeta unfilled_ops sample_recursor (?fresh unfilled_ops) (?fresh unfilled_ops)
           = Inr (ScaledMatrix_new 9 9, ScaledMatrix_new 9 9)"
    by (simp add: unfilled_ops_def sample_ops_def sample_Length sample_tpl0_def)
  have g0: "GetLogProdScales_all (ScaledMatrix_new 9 9) = Finite 0"
    by (simp add: GetLogProdScales_all_def GetLogProdScales_def ScaledMatrix_new_def upt_rec)
  have c0: "Get (ScaledMatrix_new 9 9) 0 0 = Finite 0"
    by (simp add: Get_def ScaledMatrix_new_def)
  have inf: "\<not> isfinite (LL unfilled_ev)"
    by (simp add: LL_def unfilled_ev_def g0 c0 tpl_UndoCounterWeights_def)
  note b = EvaluatorImpl_new_mismatch [where ops = unfilled_ops and tpl = sample_tpl0
      and mr = sample_read and scoreDiff = "12.5", OF refl refl, unfolded x]
  have bad: "EvaluatorImpl_new unfilled_ops sample_tpl0 sample_read 12.5 = Inl AlphaBetaMismatch"
    using b 1 3 inf unfolding unfilled_ev_def by blast
  have 4: "FillAlphaBeta failing_fill_ops sample_recursor (?fresh failing_fill_ops)
             (?fresh failing_fill_ops) = Inl (other_exception ''FillAlphaBeta'')"
    by (simp add: failing_fill_ops_def sample_ops_def)
  note f = EvaluatorImpl_new_mismatch [where ops = failing_fill_ops and tpl = sample_tpl0
      and mr = sample_read and scoreDiff = "12.5", OF refl refl]
  have thrown: "EvaluatorImpl_new failing_fill_ops sample_tpl0 sample_read 12.5 =
                  Inl (other_exception ''FillAlphaBeta'')"
    using f 1 4 by blast
  show ?thesis using 1 fin ok inf bad thrown by blast
qed





end
